theory Spec2Isabelle
  imports Main
begin

section \<open>Data model of the Python completer\<close>

text \<open>
  The completer of \<^verbatim>\<open>ycmd/completers/python/python_completer.py\<close> answers
  completion and navigation requests by calling the Jedi engine.  The engine, the
  configuration-module locator, the executable resolver and the file reader are outside
  the file; they are the fields of the record \<open>externals\<close> below, each a function
  that returns.  Everything the methods of \<^verbatim>\<open>PythonCompleter\<close> do themselves
  is a definition of this theory: the caches are fields of the state record
  \<open>completer\<close>, a method takes the state and returns its result with the new state,
  and an exception is the left injection of a sum.  One method runs at a time: the lock
  \<^verbatim>\<open>_jedi_lock\<close>, which a method takes around its calls of the engine, has no part
  in what a single call computes and is not a field of the state.
\<close>

text \<open>
  Every exception the file raises itself is a \<^verbatim>\<open>RuntimeError\<close> with a message.
  \<open>TypeError\<close> is what Python raises for \<^verbatim>\<open>None + 1\<close>.
\<close>

datatype error = RuntimeError string | TypeError

text \<open>\<^verbatim>\<open>request_data[ 'extra_conf_data' ]\<close>: a hashable value compared by equality.\<close>

datatype client_data = ClientData nat

record request =
  filepath :: string
  extra_conf_data :: client_data
  contents :: string
  line_num :: int
  start_codepoint :: int

text \<open>
  A Python list is an object that is changed in place, and \<^verbatim>\<open>_GetSysPath\<close> extends one
  that the cached settings and the cached search paths may hold too.  So a list is known
  by its address, and the store \<open>lists\<close> of the state holds what is at each address: a
  list object of a configuration module (there from the start), or one made since, at
  the address given by the counter \<open>next_list\<close>.
\<close>

datatype list_ref = ModuleList nat | NewList nat

text \<open>
  What a function of a configuration module returns where a list is expected: a list
  object that exists already, or a list it builds on this call.
\<close>

datatype list_expr = TheList list_ref | AList "string list"

text \<open>
  The dictionary returned by \<^verbatim>\<open>Settings\<close> of an extra configuration module, as it
  is returned and as it is held by the completer.  A field is \<open>None\<close> when the key is
  missing (\<^verbatim>\<open>settings.get\<close> then gives \<^verbatim>\<open>None\<close>).
\<close>

record returned_settings =
  r_interpreter_path :: "string option"
  r_sys_path :: "list_expr option"

record settings =
  interpreter_path :: "string option"
  sys_path :: "list_ref option"

text \<open>
  An environment object of the engine.  Every construction yields a new object: its
  identity is the number \<open>env_id\<close>, taken from the counter \<open>next_env\<close> of the state.
\<close>

datatype environment = Environment (env_id: nat) (env_path: "string option")

text \<open>
  An extra configuration module; a field is \<open>None\<close> when the module has no such
  attribute (\<^verbatim>\<open>hasattr\<close> is false).  \<open>Settings\<close> takes the file name and the client
  data (the language is always \<^verbatim>\<open>'python'\<close>) and may return \<^verbatim>\<open>None\<close>.
  \<open>PythonSysPath\<close> takes the interpreter path and the list of the search path, the
  object and what it holds; it gives what the list holds when it returns (it may
  change the list in place) and the list it returns.
\<close>

record conf_module =
  Settings :: "(string \<Rightarrow> client_data \<Rightarrow> returned_settings option) option"
  PythonSysPath :: "(string \<Rightarrow> list_ref \<Rightarrow> string list \<Rightarrow> string list \<times> list_expr) option"

text \<open>
  What Jedi returns: a definition (or a completion, which has the same attributes).
  \<open>module_path\<close>, \<open>line\<close> and \<open>column\<close> are \<^verbatim>\<open>None\<close> for a builtin;
  \<open>params\<close> is \<open>None\<close> when reading the attribute raises \<^verbatim>\<open>AttributeError\<close>,
  and holds the description of every parameter otherwise.
\<close>

record jedi_definition =
  module_path :: "string option"
  name :: string
  line :: "int option"
  column :: "int option"
  description :: string
  docstring :: string
  params :: "string list option"
  jedi_type :: string

text \<open>
  The arguments of \<^verbatim>\<open>jedi.Script\<close>; the search path is what the list holds when the
  session is built.
\<close>

record script =
  s_source :: string
  s_line :: "int option"
  s_column :: "int option"
  s_path :: "string option"
  s_sys_path :: "string list"
  s_environment :: environment

record externals =
  python_binary_path :: string
  ModuleForSourceFile :: "string \<Rightarrow> conf_module option"
  ExpandVariablesInPath :: "string \<Rightarrow> string"
  FindExecutable :: "string \<Rightarrow> string option"
  normpath :: "string \<Rightarrow> string"
  executable :: "environment \<Rightarrow> string"
  get_sys_path :: "environment \<Rightarrow> string list"
  GetFileContents :: "request \<Rightarrow> string option \<Rightarrow> string"
  completions :: "script \<Rightarrow> jedi_definition list"
  goto_assignments :: "script \<Rightarrow> jedi_definition list"
  goto_definitions :: "script \<Rightarrow> jedi_definition list"
  usages :: "script \<Rightarrow> jedi_definition list"

text \<open>
  The calls of the resolution collaborators, in the order they are made.  The list
  \<open>calls\<close> of the state is not a field of the Python object: it records the effect
  of calling out, so that "not computed again" is a statement about the state.
\<close>

datatype ext_call =
    CallModuleForSourceFile string
  | CallSettings string client_data
  | CallFindExecutable string
  | CallGetDefaultEnvironment
  | CallCreateEnvironment string
  | CallGetSysPath environment
  | CallPythonSysPath string

record completer =
  settings_for_file :: "string \<times> client_data \<rightharpoonup> settings"
  environment_for_file :: "string \<times> client_data \<rightharpoonup> environment"
  environment_for_interpreter_path :: "string option \<rightharpoonup> environment"
  sys_path_for_file :: "string \<times> client_data \<rightharpoonup> list_ref"
  next_env :: nat
  calls :: "ext_call list"
  lists :: "list_ref \<Rightarrow> string list"
  next_list :: nat

definition init :: completer where
  "init = \<lparr> settings_for_file = Map.empty, environment_for_file = Map.empty,
            environment_for_interpreter_path = Map.empty, sys_path_for_file = Map.empty,
            next_env = 0, calls = [], lists = (\<lambda>r. []), next_list = 0 \<rparr>"

definition note_call :: "ext_call \<Rightarrow> completer \<Rightarrow> completer" where
  "note_call c s = s\<lparr> calls := calls s @ [c] \<rparr>"

text \<open>Python's truth value of a string that may be \<^verbatim>\<open>None\<close>.\<close>

definition truthy :: "string option \<Rightarrow> bool" where
  "truthy p = (case p of None \<Rightarrow> False | Some x \<Rightarrow> x \<noteq> [])"

text \<open>A new list object, and the object a returned list is.\<close>

definition new_list :: "string list \<Rightarrow> completer \<Rightarrow> list_ref \<times> completer" where
  "new_list l s =
     (NewList (next_list s),
      s\<lparr> lists := (lists s)(NewList (next_list s) := l), next_list := Suc (next_list s) \<rparr>)"

definition list_of :: "list_expr \<Rightarrow> completer \<Rightarrow> list_ref \<times> completer" where
  "list_of e s = (case e of TheList r \<Rightarrow> (r, s) | AList l \<Rightarrow> new_list l s)"

section \<open>Settings, environment and search path caches\<close>

definition default_settings :: "externals \<Rightarrow> settings" where
  "default_settings ext = \<lparr> interpreter_path = Some (python_binary_path ext), sys_path = None \<rparr>"

definition GetSettings ::
  "externals \<Rightarrow> conf_module option \<Rightarrow> string \<Rightarrow> client_data \<Rightarrow> completer \<Rightarrow> settings \<times> completer"
where
  "GetSettings ext module fp cd s =
     (case module of
        None \<Rightarrow> (default_settings ext, s)
      | Some m \<Rightarrow>
          (case Settings m of
             None \<Rightarrow> (default_settings ext, s)
           | Some f \<Rightarrow>
               (case f fp cd of
                  Some rs \<Rightarrow>
                    (case r_sys_path rs of
                       None \<Rightarrow>
                         (\<lparr> interpreter_path = r_interpreter_path rs, sys_path = None \<rparr>,
                          note_call (CallSettings fp cd) s)
                     | Some e \<Rightarrow>
                         (let (r, s1) = list_of e (note_call (CallSettings fp cd) s)
                          in (\<lparr> interpreter_path = r_interpreter_path rs, sys_path = Some r \<rparr>,
                              s1)))
                | None \<Rightarrow> (default_settings ext, note_call (CallSettings fp cd) s))))"

definition SettingsForRequest ::
  "externals \<Rightarrow> request \<Rightarrow> completer \<Rightarrow> settings \<times> completer"
where
  "SettingsForRequest ext req s =
     (let fp = filepath req; cd = extra_conf_data req in
      case settings_for_file s (fp, cd) of
        Some st \<Rightarrow> (st, s)
      | None \<Rightarrow>
          (let module = ModuleForSourceFile ext fp;
               s1 = note_call (CallModuleForSourceFile fp) s;
               (st, s2) = GetSettings ext module fp cd s1
           in (st, s2\<lparr> settings_for_file := (settings_for_file s2)((fp, cd) \<mapsto> st) \<rparr>)))"

text \<open>
  \<^verbatim>\<open>jedi.get_default_environment()\<close> and \<^verbatim>\<open>jedi.create_environment( path, safe = False )\<close>.
\<close>

definition get_default_environment :: "completer \<Rightarrow> environment \<times> completer" where
  "get_default_environment s =
     (Environment (next_env s) None,
      note_call CallGetDefaultEnvironment (s\<lparr> next_env := Suc (next_env s) \<rparr>))"

definition create_environment :: "string \<Rightarrow> completer \<Rightarrow> environment \<times> completer" where
  "create_environment p s =
     (Environment (next_env s) (Some p),
      note_call (CallCreateEnvironment p) (s\<lparr> next_env := Suc (next_env s) \<rparr>))"

text \<open>
  The first half of \<^verbatim>\<open>_EnvironmentForInterpreterPath\<close>: a path that is neither
  \<^verbatim>\<open>None\<close> nor empty is expanded, searched and normalised, and the search finding
  nothing raises; any other value is kept as it is.
\<close>

definition resolve_interpreter_path ::
  "externals \<Rightarrow> string option \<Rightarrow> completer \<Rightarrow> (error + string option) \<times> completer"
where
  "resolve_interpreter_path ext ip s =
     (case ip of
        None \<Rightarrow> (Inr None, s)
      | Some p \<Rightarrow>
          if p = [] then (Inr (Some p), s)
          else
            (let expanded = ExpandVariablesInPath ext p;
                 resolved_interpreter_path = FindExecutable ext expanded;
                 s1 = note_call (CallFindExecutable expanded) s
             in if \<not> truthy resolved_interpreter_path
                then (Inl (RuntimeError (''Cannot find Python interpreter path '' @ p @ ''.'')), s1)
                else (Inr (Some (normpath ext (the resolved_interpreter_path))), s1)))"

definition EnvironmentForInterpreterPath ::
  "externals \<Rightarrow> string option \<Rightarrow> completer \<Rightarrow> (error + environment) \<times> completer"
where
  "EnvironmentForInterpreterPath ext ip s =
     (case resolve_interpreter_path ext ip s of
        (Inl e, s1) \<Rightarrow> (Inl e, s1)
      | (Inr key, s1) \<Rightarrow>
          (case environment_for_interpreter_path s1 key of
             Some env \<Rightarrow> (Inr env, s1)
           | None \<Rightarrow>
               (let (env, s2) = (if \<not> truthy key then get_default_environment s1
                                 else create_environment (the key) s1)
                in (Inr env,
                    s2\<lparr> environment_for_interpreter_path :=
                          (environment_for_interpreter_path s2)(key \<mapsto> env) \<rparr>))))"

definition EnvironmentForRequest ::
  "externals \<Rightarrow> request \<Rightarrow> completer \<Rightarrow> (error + environment) \<times> completer"
where
  "EnvironmentForRequest ext req s =
     (let fp = filepath req; cd = extra_conf_data req in
      case environment_for_file s (fp, cd) of
        Some env \<Rightarrow> (Inr env, s)
      | None \<Rightarrow>
          (let (st, s1) = SettingsForRequest ext req s in
           case EnvironmentForInterpreterPath ext (interpreter_path st) s1 of
             (Inl e, s2) \<Rightarrow> (Inl e, s2)
           | (Inr env, s2) \<Rightarrow>
               (Inr env, s2\<lparr> environment_for_file := (environment_for_file s2)((fp, cd) \<mapsto> env) \<rparr>)))"

text \<open>
  \<^verbatim>\<open>_GetSysPath\<close>.  The working dictionary starts as \<^verbatim>\<open>{ 'sys_path': [] }\<close>, with
  a new list, and is updated with the settings of the request, so its \<^verbatim>\<open>'sys_path'\<close>
  entry is the very list of the cached settings when they have one.  \<^verbatim>\<open>extend\<close>
  lengthens that list in place: whatever else holds the list sees it longer.
\<close>

definition GetSysPath ::
  "externals \<Rightarrow> request \<Rightarrow> environment \<Rightarrow> completer \<Rightarrow> list_ref \<times> completer"
where
  "GetSysPath ext req env s =
     (let (empty_list, s0) = new_list [] s;
          (st, s1) = SettingsForRequest ext req s0;
          sp = (case sys_path st of None \<Rightarrow> empty_list | Some r \<Rightarrow> r);
          interpreter = executable ext env;
          env_sys_path = get_sys_path ext env;
          s2 = note_call (CallGetSysPath env) s1;
          s3 = s2\<lparr> lists := (lists s2)(sp := lists s2 sp @ env_sys_path) \<rparr>;
          module = ModuleForSourceFile ext (filepath req);
          s4 = note_call (CallModuleForSourceFile (filepath req)) s3
      in case module of
           None \<Rightarrow> (sp, s4)
         | Some m \<Rightarrow>
             (case PythonSysPath m of
                None \<Rightarrow> (sp, s4)
              | Some f \<Rightarrow>
                  (let (held, returned) = f interpreter sp (lists s4 sp);
                       s5 = note_call (CallPythonSysPath (filepath req)) s4;
                       s6 = s5\<lparr> lists := (lists s5)(sp := held) \<rparr>
                   in list_of returned s6)))"

definition SysPathForFile ::
  "externals \<Rightarrow> request \<Rightarrow> environment \<Rightarrow> completer \<Rightarrow> list_ref \<times> completer"
where
  "SysPathForFile ext req env s =
     (let fp = filepath req; cd = extra_conf_data req in
      case sys_path_for_file s (fp, cd) of
        Some sp \<Rightarrow> (sp, s)
      | None \<Rightarrow>
          (let (sp, s1) = GetSysPath ext req env s
           in (sp, s1\<lparr> sys_path_for_file := (sys_path_for_file s1)((fp, cd) \<mapsto> sp) \<rparr>)))"

definition OnFileReadyToParse ::
  "externals \<Rightarrow> request \<Rightarrow> completer \<Rightarrow> (error + unit) \<times> completer"
where
  "OnFileReadyToParse ext req s =
     (case EnvironmentForRequest ext req s of
        (Inl e, s1) \<Rightarrow> (Inl e, s1)
      | (Inr environment, s1) \<Rightarrow>
          (let (sp, s2) = SysPathForFile ext req environment s1 in (Inr (), s2)))"


section \<open>Analysis sessions\<close>

text \<open>
  \<^verbatim>\<open>_GetJediScript\<close>: the session at the cursor; the column of the request starts at
  1, Jedi's at 0.  \<^verbatim>\<open>_GetJediScriptForDefinition\<close>: the session at a definition, in
  the environment and with the search path of the requesting file.
\<close>

definition GetJediScript ::
  "externals \<Rightarrow> request \<Rightarrow> completer \<Rightarrow> (error + script) \<times> completer"
where
  "GetJediScript ext req s =
     (let path = filepath req;
          source = contents req;
          line = line_num req;
          column = start_codepoint req - 1
      in case EnvironmentForRequest ext req s of
           (Inl e, s1) \<Rightarrow> (Inl e, s1)
         | (Inr environment, s1) \<Rightarrow>
             (let (sp, s2) = SysPathForFile ext req environment s1
              in (Inr \<lparr> s_source = source, s_line = Some line, s_column = Some column,
                         s_path = Some path, s_sys_path = lists s2 sp,
                         s_environment = environment \<rparr>, s2)))"

definition GetJediScriptForDefinition ::
  "externals \<Rightarrow> request \<Rightarrow> jedi_definition \<Rightarrow> completer \<Rightarrow> (error + script) \<times> completer"
where
  "GetJediScriptForDefinition ext req d s =
     (let path = module_path d;
          source = GetFileContents ext req path;
          line = line d;
          column = column d
      in case EnvironmentForRequest ext req s of
           (Inl e, s1) \<Rightarrow> (Inl e, s1)
         | (Inr environment, s1) \<Rightarrow>
             (let (sp, s2) = SysPathForFile ext req environment s1
              in (Inr \<lparr> s_source = source, s_line = line, s_column = column,
                         s_path = path, s_sys_path = lists s2 sp,
                         s_environment = environment \<rparr>, s2)))"

section \<open>Responses\<close>

text \<open>
  The values built by \<^verbatim>\<open>ycmd.responses\<close>, each holding the arguments it was built
  from: \<^verbatim>\<open>BuildGoToResponse( filepath, line_num, column_num, description )\<close> with
  the description \<open>None\<close> when it is not given, a list of them,
  \<^verbatim>\<open>BuildDisplayMessageResponse\<close> and \<^verbatim>\<open>BuildDetailedInfoResponse\<close>.
\<close>

datatype goto_location =
  GoToLocation (go_filepath: "string option") (go_line_num: "int option") (go_column_num: int)
    (go_description: "string option")

datatype response =
    GoToResponse goto_location
  | GoToList "goto_location list"
  | DisplayMessageResponse string
  | DetailedInfoResponse string

text \<open>
  The loop of \<^verbatim>\<open>_BuildGoToResponse\<close>; \<^verbatim>\<open>definition.column + 1\<close> raises
  \<^verbatim>\<open>TypeError\<close> when the column is \<^verbatim>\<open>None\<close>.
\<close>

fun gotos_of :: "jedi_definition list \<Rightarrow> error + goto_location list" where
  "gotos_of [] = Inr []"
| "gotos_of (d # ds) =
     (case column d of
        None \<Rightarrow> Inl TypeError
      | Some c \<Rightarrow>
          (case gotos_of ds of
             Inl e \<Rightarrow> Inl e
           | Inr gotos \<Rightarrow>
               Inr (GoToLocation (module_path d) (line d) (c + 1) (Some (description d)) # gotos)))"

definition BuildGoToResponse :: "jedi_definition list \<Rightarrow> error + response" where
  "BuildGoToResponse definitions =
     (if length definitions = 1 then
        (let d = definitions ! 0 in
         case column d of
           None \<Rightarrow> Inl TypeError
         | Some c \<Rightarrow> Inr (GoToResponse (GoToLocation (module_path d) (line d) (c + 1) None)))
      else
        (case gotos_of definitions of
           Inl e \<Rightarrow> Inl e
         | Inr gotos \<Rightarrow> Inr (GoToList gotos)))"

section \<open>Go to definition\<close>

text \<open>
  The inner function \<^verbatim>\<open>_GoToDefinitionsWithSameName\<close>: the assignments found from
  the place of the definition, of which those with its name and another place are kept.
\<close>

definition GoToDefinitionsWithSameName ::
  "externals \<Rightarrow> request \<Rightarrow> jedi_definition \<Rightarrow> completer \<Rightarrow>
     (error + jedi_definition list) \<times> completer"
where
  "GoToDefinitionsWithSameName ext req d s =
     (if \<not> truthy (module_path d) then (Inr [], s)
      else
        (case GetJediScriptForDefinition ext req d s of
           (Inl e, s1) \<Rightarrow> (Inl e, s1)
         | (Inr sc, s1) \<Rightarrow>
             (Inr (filter (\<lambda>d'. name d' = name d \<and>
                                 (module_path d' \<noteq> module_path d \<or>
                                  line d' \<noteq> line d \<or>
                                  column d' \<noteq> column d))
                          (goto_assignments ext sc)), s1)))"

text \<open>
  The \<^verbatim>\<open>for\<close> loop of a round, over what is left of \<^verbatim>\<open>previous_definitions\<close>,
  with the variables \<^verbatim>\<open>definitions\<close> and \<^verbatim>\<open>keep_traversing\<close>.
\<close>

fun chase_for ::
  "externals \<Rightarrow> request \<Rightarrow> jedi_definition list \<Rightarrow> jedi_definition list \<times> bool \<Rightarrow> completer \<Rightarrow>
     (error + jedi_definition list \<times> bool) \<times> completer"
where
  "chase_for ext req [] acc s = (Inr acc, s)"
| "chase_for ext req (d # ds) (definitions, keep_traversing) s =
     (case GoToDefinitionsWithSameName ext req d s of
        (Inl e, s1) \<Rightarrow> (Inl e, s1)
      | (Inr goto_defs, s1) \<Rightarrow>
          if goto_defs \<noteq> [] then
            chase_for ext req ds (definitions @ goto_defs, True) s1
          else
            chase_for ext req ds (definitions @ [d], keep_traversing) s1)"

text \<open>
  The \<^verbatim>\<open>while\<close> loop, entered with \<^verbatim>\<open>keep_traversing\<close> true: a round, and
  another one when the round has set \<^verbatim>\<open>keep_traversing\<close>.  \<open>None\<close> is the loop
  running forever.
\<close>

partial_function (option) chase_while ::
  "externals \<Rightarrow> request \<Rightarrow> jedi_definition list \<Rightarrow> completer \<Rightarrow>
     ((error + jedi_definition list) \<times> completer) option"
where
  "chase_while ext req definitions s =
     (case chase_for ext req definitions ([], False) s of
        (Inl e, s1) \<Rightarrow> Some (Inl e, s1)
      | (Inr (definitions', keep_traversing), s1) \<Rightarrow>
          if keep_traversing then chase_while ext req definitions' s1
          else Some (Inr definitions', s1))"

text \<open>The same loop with a bound on the number of rounds, \<open>None\<close> when it is used up.\<close>

fun chase_rounds ::
  "nat \<Rightarrow> externals \<Rightarrow> request \<Rightarrow> jedi_definition list \<Rightarrow> completer \<Rightarrow>
     ((error + jedi_definition list) \<times> completer) option"
where
  "chase_rounds 0 ext req definitions s = None"
| "chase_rounds (Suc n) ext req definitions s =
     (case chase_for ext req definitions ([], False) s of
        (Inl e, s1) \<Rightarrow> Some (Inl e, s1)
      | (Inr (definitions', keep_traversing), s1) \<Rightarrow>
          if keep_traversing then chase_rounds n ext req definitions' s1
          else Some (Inr definitions', s1))"

definition GoToDefinition ::
  "externals \<Rightarrow> request \<Rightarrow> completer \<Rightarrow> ((error + response) \<times> completer) option"
where
  "GoToDefinition ext req s =
     (case GetJediScript ext req s of
        (Inl e, s1) \<Rightarrow> Some (Inl e, s1)
      | (Inr sc, s1) \<Rightarrow>
          (case chase_while ext req (goto_assignments ext sc) s1 of
             None \<Rightarrow> None
           | Some (Inl e, s2) \<Rightarrow> Some (Inl e, s2)
           | Some (Inr definitions, s2) \<Rightarrow>
               if definitions \<noteq> [] then Some (BuildGoToResponse definitions, s2)
               else Some (Inl (RuntimeError ''Can't jump to definition.''), s2)))"

section \<open>Go to type, references, type and documentation\<close>

definition GoToType ::
  "externals \<Rightarrow> request \<Rightarrow> completer \<Rightarrow> (error + response) \<times> completer"
where
  "GoToType ext req s =
     (case GetJediScript ext req s of
        (Inl e, s1) \<Rightarrow> (Inl e, s1)
      | (Inr sc, s1) \<Rightarrow>
          (let definitions = goto_definitions ext sc in
           if definitions \<noteq> [] then (BuildGoToResponse definitions, s1)
           else (Inl (RuntimeError ''Can't jump to type definition.''), s1)))"

definition GoToReferences ::
  "externals \<Rightarrow> request \<Rightarrow> completer \<Rightarrow> (error + response) \<times> completer"
where
  "GoToReferences ext req s =
     (case GetJediScript ext req s of
        (Inl e, s1) \<Rightarrow> (Inl e, s1)
      | (Inr sc, s1) \<Rightarrow>
          (let definitions = usages ext sc in
           if definitions \<noteq> [] then (BuildGoToResponse definitions, s1)
           else (Inl (RuntimeError ''Can't find references.''), s1)))"

text \<open>Python's \<^verbatim>\<open>sep.join( xs )\<close>.\<close>

fun join :: "string \<Rightarrow> string list \<Rightarrow> string" where
  "join sep [] = []"
| "join sep [x] = x"
| "join sep (x # y # ys) = x @ sep @ join sep (y # ys)"

text \<open>
  \<^verbatim>\<open>_BuildTypeInfo\<close>: the description, and the parameters between parentheses
  unless reading \<^verbatim>\<open>definition.params\<close> raises \<^verbatim>\<open>AttributeError\<close>;
  \<^verbatim>\<open>param.description[ 6: ]\<close> drops the first six characters.
\<close>

definition BuildTypeInfo :: "jedi_definition \<Rightarrow> string" where
  "BuildTypeInfo d =
     (case params d of
        None \<Rightarrow> description d
      | Some ps \<Rightarrow> description d @ ''('' @ join '', '' (map (drop 6) ps) @ '')'')"

definition GetType ::
  "externals \<Rightarrow> request \<Rightarrow> completer \<Rightarrow> (error + response) \<times> completer"
where
  "GetType ext req s =
     (case GetJediScript ext req s of
        (Inl e, s1) \<Rightarrow> (Inl e, s1)
      | (Inr sc, s1) \<Rightarrow>
          (let definitions = goto_definitions ext sc;
               type_info = join '', '' (map BuildTypeInfo definitions)
           in if type_info \<noteq> [] then (Inr (DisplayMessageResponse type_info), s1)
              else (Inl (RuntimeError ''No type information available.''), s1)))"

text \<open>The separator \<^verbatim>\<open>'\n---\n'\<close>.\<close>

definition doc_separator :: string where
  "doc_separator = [CHR 0x0A, CHR ''-'', CHR ''-'', CHR ''-'', CHR 0x0A]"

definition GetDoc ::
  "externals \<Rightarrow> request \<Rightarrow> completer \<Rightarrow> (error + response) \<times> completer"
where
  "GetDoc ext req s =
     (case GetJediScript ext req s of
        (Inl e, s1) \<Rightarrow> (Inl e, s1)
      | (Inr sc, s1) \<Rightarrow>
          (let definitions = goto_definitions ext sc;
               documentation = join doc_separator (map docstring definitions)
           in if documentation \<noteq> [] then (Inr (DetailedInfoResponse documentation), s1)
              else (Inl (RuntimeError ''No documentation available.''), s1)))"

section \<open>Completion candidates\<close>

text \<open>
  The \<^verbatim>\<open>'extra_data'\<close> entry of a candidate: the completion object of Jedi until
  the candidate is detailed, then a dictionary, empty or with a \<^verbatim>\<open>'location'\<close>.
  The other entries of a candidate are \<open>None\<close> while the key is missing.
\<close>

datatype location =
  Location (loc_filepath: string) (loc_line_num: int) (loc_column_num: int)

datatype extra_data = Completion jedi_definition | Dict "location option"

record candidate =
  insertion_text :: string
  extra_menu_info :: "string option"
  detailed_info :: "string option"
  kind :: "string option"
  extra_data :: extra_data

definition GetExtraData :: "jedi_definition \<Rightarrow> location option" where
  "GetExtraData completion =
     (case (module_path completion, line completion, column completion) of
        (Some p, Some l, Some c) \<Rightarrow>
          if p \<noteq> [] \<and> l \<noteq> 0 \<and> c \<noteq> 0 then Some (Location p l (c + 1)) else None
      | _ \<Rightarrow> None)"

definition ComputeCandidatesInner ::
  "externals \<Rightarrow> request \<Rightarrow> completer \<Rightarrow> (error + candidate list) \<times> completer"
where
  "ComputeCandidatesInner ext req s =
     (case GetJediScript ext req s of
        (Inl e, s1) \<Rightarrow> (Inl e, s1)
      | (Inr sc, s1) \<Rightarrow>
          (Inr (map (\<lambda>completion.
                       \<lparr> insertion_text = name completion, extra_menu_info = None,
                         detailed_info = None, kind = None,
                         extra_data = Completion completion \<rparr>)
                    (completions ext sc)), s1))"

text \<open>
  \<^verbatim>\<open>DetailCandidates\<close> changes the candidates of the list in place and returns the
  list; here it returns the list of the changed candidates.
\<close>

fun DetailCandidates :: "request \<Rightarrow> candidate list \<Rightarrow> candidate list" where
  "DetailCandidates req [] = []"
| "DetailCandidates req (candidate # candidates) =
     (case extra_data candidate of
        Dict x \<Rightarrow> candidate
      | Completion completion \<Rightarrow>
          candidate\<lparr> extra_menu_info := Some (BuildTypeInfo completion),
                     detailed_info := Some (docstring completion),
                     kind := Some (jedi_type completion),
                     extra_data := Dict (GetExtraData completion) \<rparr>)
     # DetailCandidates req candidates"

section \<open>A concrete world\<close>

text \<open>
  Collaborators to run the definitions on: the variable \<^verbatim>\<open>$PYTHON\<close> expands to
  \<^verbatim>\<open>/usr/bin/python3\<close>, the only interpreter there is, which is also found under the
  unnormalised name \<^verbatim>\<open>/usr/bin/./python3\<close>; no file has an extra configuration
  module.  The engine functions return nothing; the worlds further down replace them.
\<close>

definition demo_externals :: externals where
  "demo_externals =
     \<lparr> python_binary_path = [],
       ModuleForSourceFile = (\<lambda>fp. None),
       ExpandVariablesInPath = (\<lambda>p. if p = ''$PYTHON'' then ''/usr/bin/python3'' else p),
       FindExecutable = (\<lambda>p. if p = ''/usr/bin/python3'' \<or> p = ''/usr/bin/./python3''
                              then Some p else None),
       normpath = (\<lambda>p. if p = ''/usr/bin/./python3'' then ''/usr/bin/python3'' else p),
       executable = (\<lambda>env. case env_path env of None \<Rightarrow> ''/usr/bin/python3'' | Some p \<Rightarrow> p),
       get_sys_path = (\<lambda>env. [''/usr/lib/python3'']),
       GetFileContents = (\<lambda>req p. []),
       completions = (\<lambda>sc. []),
       goto_assignments = (\<lambda>sc. []),
       goto_definitions = (\<lambda>sc. []),
       usages = (\<lambda>sc. []) \<rparr>"

definition demo_request :: request where
  "demo_request =
     \<lparr> filepath = ''/project/a.py'', extra_conf_data = ClientData 0, contents = [],
       line_num = 3, start_codepoint = 5 \<rparr>"

text \<open>The key of the three per-file caches: \<^verbatim>\<open>filepath, client_data\<close>.\<close>

definition key_of :: "request \<Rightarrow> string \<times> client_data" where
  "key_of req = (filepath req, extra_conf_data req)"

definition demo_request_again :: request where
  "demo_request_again = demo_request\<lparr> contents := ''import os'', line_num := 1, start_codepoint := 8 \<rparr>"

definition demo_request_other :: request where
  "demo_request_other = demo_request\<lparr> extra_conf_data := ClientData 1 \<rparr>"

section \<open>Notions used in the statements\<close>

text \<open>
  The state after a session was built for the request: its environment and its search
  path are cached.
\<close>

definition cached :: "request \<Rightarrow> completer \<Rightarrow> bool" where
  "cached req s \<longleftrightarrow>
     environment_for_file s (key_of req) \<noteq> None \<and> sys_path_for_file s (key_of req) \<noteq> None"

text \<open>
  What \<^verbatim>\<open>_GoToDefinitionsWithSameName\<close> returns for a definition in a state, and what
  a round puts in the place of the definition.
\<close>

definition same_name_at ::
  "externals \<Rightarrow> request \<Rightarrow> completer \<Rightarrow> jedi_definition \<Rightarrow> jedi_definition list"
where
  "same_name_at ext req s d =
     (case fst (GoToDefinitionsWithSameName ext req d s) of Inl e \<Rightarrow> [] | Inr ds \<Rightarrow> ds)"

definition replaced_by ::
  "externals \<Rightarrow> request \<Rightarrow> completer \<Rightarrow> jedi_definition \<Rightarrow> jedi_definition list"
where
  "replaced_by ext req s d =
     (if same_name_at ext req s d \<noteq> [] then same_name_at ext req s d else [d])"

text \<open>The place of a definition.\<close>

definition place :: "jedi_definition \<Rightarrow> string option \<times> int option \<times> int option" where
  "place d = (module_path d, line d, column d)"

section \<open>Concrete definitions and engines\<close>

text \<open>
  The name \<^verbatim>\<open>f\<close> is used at line 3 of \<^verbatim>\<open>/project/a.py\<close>, imported there at
  line 1 from \<^verbatim>\<open>/project/b.py\<close>, which imports it from \<^verbatim>\<open>/project/c.py\<close>, where
  it is defined at line 5.
\<close>

definition def_a :: jedi_definition where
  "def_a = \<lparr> module_path = Some ''/project/a.py'', name = ''f'', line = Some 1, column = Some 14,
             description = ''from b import f'', docstring = [], params = None,
             jedi_type = ''module'' \<rparr>"

definition def_b :: jedi_definition where
  "def_b = \<lparr> module_path = Some ''/project/b.py'', name = ''f'', line = Some 1, column = Some 14,
             description = ''from c import f'', docstring = [], params = None,
             jedi_type = ''module'' \<rparr>"

definition def_c :: jedi_definition where
  "def_c = \<lparr> module_path = Some ''/project/c.py'', name = ''f'', line = Some 5, column = Some 4,
             description = ''def f'', docstring = ''f(x, y=1)'',
             params = Some [''param x'', ''param y=1''], jedi_type = ''function'' \<rparr>"

text \<open>The session \<^verbatim>\<open>_GetJediScript\<close> builds for \<open>demo_request\<close> in the concrete world.\<close>

definition demo_script :: script where
  "demo_script =
     \<lparr> s_source = [], s_line = Some 3, s_column = Some 4, s_path = Some ''/project/a.py'',
       s_sys_path = [''/usr/lib/python3''], s_environment = Environment 0 None \<rparr>"

text \<open>
  An engine for the chain: from the cursor it finds the import in \<^verbatim>\<open>a.py\<close>; from
  there the import itself and the one in \<^verbatim>\<open>b.py\<close>; from that one the definition in
  \<^verbatim>\<open>c.py\<close>; from the definition the definition itself.
\<close>

definition script_place :: "script \<Rightarrow> string option \<times> int option \<times> int option" where
  "script_place sc = (s_path sc, s_line sc, s_column sc)"

definition chain_externals :: externals where
  "chain_externals =
     demo_externals
       \<lparr> goto_assignments :=
           (\<lambda>sc. if script_place sc = (Some ''/project/a.py'', Some 3, Some 4) then [def_a]
                 else if script_place sc = (Some ''/project/a.py'', Some 1, Some 14) then [def_a, def_b]
                 else if script_place sc = (Some ''/project/b.py'', Some 1, Some 14) then [def_c]
                 else if script_place sc = (Some ''/project/c.py'', Some 5, Some 4) then [def_c]
                 else []),
         goto_definitions := (\<lambda>sc. [def_c]),
         usages := (\<lambda>sc. [def_a, def_c]) \<rparr>"

text \<open>An engine for which the two imports name each other.\<close>

definition cyclic_externals :: externals where
  "cyclic_externals =
     demo_externals
       \<lparr> goto_assignments :=
           (\<lambda>sc. if script_place sc = (Some ''/project/a.py'', Some 3, Some 4) then [def_a]
                 else if script_place sc = (Some ''/project/a.py'', Some 1, Some 14) then [def_b]
                 else if script_place sc = (Some ''/project/b.py'', Some 1, Some 14) then [def_a]
                 else []) \<rparr>"

text \<open>Two definitions without documentation, and one without description.\<close>

definition undocumented_externals :: externals where
  "undocumented_externals = demo_externals \<lparr> goto_definitions := (\<lambda>sc. [def_a, def_b]) \<rparr>"

definition def_blank :: jedi_definition where
  "def_blank = \<lparr> module_path = None, name = ''x'', line = None, column = None,
                 description = [], docstring = [], params = None, jedi_type = ''instance'' \<rparr>"

definition blank_externals :: externals where
  "blank_externals = demo_externals \<lparr> goto_definitions := (\<lambda>sc. [def_blank]) \<rparr>"

text \<open>A batch of candidates: one detailed already, one as the completion left it.\<close>

definition detailed_candidate :: candidate where
  "detailed_candidate =
     \<lparr> insertion_text = ''g'', extra_menu_info = Some ''def g()'', detailed_info = Some ''g()'',
       kind = Some ''function'', extra_data = Dict None \<rparr>"

definition fresh_candidate :: candidate where
  "fresh_candidate =
     \<lparr> insertion_text = ''f'', extra_menu_info = None, detailed_info = None, kind = None,
       extra_data = Completion def_c \<rparr>"

text \<open>The state a first session for a request leaves, starting from the empty caches.\<close>

definition after_session :: "externals \<Rightarrow> request \<Rightarrow> completer" where
  "after_session ext req = snd (GetJediScript ext req init)"

text \<open>A request with the cursor on the definition in \<^verbatim>\<open>c.py\<close> itself.\<close>

definition direct_request :: request where
  "direct_request =
     \<lparr> filepath = ''/project/c.py'', extra_conf_data = ClientData 0, contents = [],
       line_num = 5, start_codepoint = 5 \<rparr>"

definition direct_script :: script where
  "direct_script =
     \<lparr> s_source = [], s_line = Some 5, s_column = Some 4, s_path = Some ''/project/c.py'',
       s_sys_path = [''/usr/lib/python3''], s_environment = Environment 0 None \<rparr>"

text \<open>The number of steps the chain engine can still make from a place.\<close>

definition chain_rank :: "jedi_definition \<Rightarrow> nat" where
  "chain_rank d =
     (if place d = (Some ''/project/a.py'', Some 3, Some 4) then 3
      else if place d = (Some ''/project/a.py'', Some 1, Some 14) then 2
      else if place d = (Some ''/project/b.py'', Some 1, Some 14) then 1
      else 0)"


text \<open>
  A builtin, as Jedi gives it: no module path, no line, no column.  The engine of
  \<open>builtin_externals\<close> finds it from everywhere.
\<close>

definition def_builtin :: jedi_definition where
  "def_builtin = \<lparr> module_path = None, name = ''__name__'', line = None, column = None,
                   description = ''instance str'', docstring = [], params = None,
                   jedi_type = ''instance'' \<rparr>"

definition builtin_externals :: externals where
  "builtin_externals =
     demo_externals
       \<lparr> goto_assignments := (\<lambda>sc. [def_builtin]),
         goto_definitions := (\<lambda>sc. [def_builtin]),
         usages := (\<lambda>sc. [def_builtin]) \<rparr>"

text \<open>
  A configuration module whose \<^verbatim>\<open>Settings\<close> returns, on every call, the same list
  object of the module as \<^verbatim>\<open>'sys_path'\<close>.
\<close>

definition shared_list_module :: conf_module where
  "shared_list_module =
     \<lparr> Settings = Some (\<lambda>fp cd. Some \<lparr> r_interpreter_path = None,
                                       r_sys_path = Some (TheList (ModuleList 0)) \<rparr>),
       PythonSysPath = None \<rparr>"

definition shared_list_externals :: externals where
  "shared_list_externals =
     demo_externals \<lparr> ModuleForSourceFile := (\<lambda>fp. Some shared_list_module) \<rparr>"

section \<open>Facts about the caches\<close>

lemma note_call_simps [simp]:
  "settings_for_file (note_call c s) = settings_for_file s"
  "environment_for_file (note_call c s) = environment_for_file s"
  "environment_for_interpreter_path (note_call c s) = environment_for_interpreter_path s"
  "sys_path_for_file (note_call c s) = sys_path_for_file s"
  "next_env (note_call c s) = next_env s"
  "calls (note_call c s) = calls s @ [c]"
  "lists (note_call c s) = lists s"
  "next_list (note_call c s) = next_list s"
  by (simp_all add: note_call_def)

lemma new_list_simps [simp]:
  "settings_for_file (snd (new_list l s)) = settings_for_file s"
  "environment_for_file (snd (new_list l s)) = environment_for_file s"
  "environment_for_interpreter_path (snd (new_list l s)) = environment_for_interpreter_path s"
  "sys_path_for_file (snd (new_list l s)) = sys_path_for_file s"
  "next_env (snd (new_list l s)) = next_env s"
  "calls (snd (new_list l s)) = calls s"
  by (simp_all add: new_list_def)

lemma list_of_simps [simp]:
  "settings_for_file (snd (list_of e s)) = settings_for_file s"
  "environment_for_file (snd (list_of e s)) = environment_for_file s"
  "environment_for_interpreter_path (snd (list_of e s)) = environment_for_interpreter_path s"
  "sys_path_for_file (snd (list_of e s)) = sys_path_for_file s"
  "next_env (snd (list_of e s)) = next_env s"
  "calls (snd (list_of e s)) = calls s"
  by (simp_all add: list_of_def split: list_expr.splits)

lemma list_of_caches:
  assumes "list_of e s = (r, s1)"
  shows "settings_for_file s1 = settings_for_file s"
    and "environment_for_file s1 = environment_for_file s"
    and "environment_for_interpreter_path s1 = environment_for_interpreter_path s"
    and "sys_path_for_file s1 = sys_path_for_file s"
    and "next_env s1 = next_env s"
    and "calls s1 = calls s"
  using list_of_simps [of e s] assms by simp_all

lemma GetSettings_caches:
  assumes "GetSettings ext module fp cd s = (st, s1)"
  shows "settings_for_file s1 = settings_for_file s"
    and "environment_for_file s1 = environment_for_file s"
    and "environment_for_interpreter_path s1 = environment_for_interpreter_path s"
    and "sys_path_for_file s1 = sys_path_for_file s"
    and "next_env s1 = next_env s"
  using assms
  by (auto simp: GetSettings_def split: option.splits prod.splits dest: list_of_caches)



lemma SettingsForRequest_other:
  assumes "SettingsForRequest ext req s = (st, s1)"
  shows "environment_for_file s1 = environment_for_file s"
    and "environment_for_interpreter_path s1 = environment_for_interpreter_path s"
    and "sys_path_for_file s1 = sys_path_for_file s"
    and "next_env s1 = next_env s"
  using assms
  by (auto simp: SettingsForRequest_def Let_def GetSettings_caches split: option.splits prod.splits)

lemma resolve_interpreter_path_caches:
  assumes "resolve_interpreter_path ext ip s = (r, s1)"
  shows "settings_for_file s1 = settings_for_file s"
    and "environment_for_file s1 = environment_for_file s"
    and "environment_for_interpreter_path s1 = environment_for_interpreter_path s"
    and "sys_path_for_file s1 = sys_path_for_file s"
    and "next_env s1 = next_env s"
  using assms
  by (auto simp: resolve_interpreter_path_def Let_def split: option.splits if_splits)

lemma resolve_interpreter_path_fails:
  assumes "p \<noteq> []" and "\<not> truthy (FindExecutable ext (ExpandVariablesInPath ext p))"
  shows "fst (resolve_interpreter_path ext (Some p) s) =
           Inl (RuntimeError (''Cannot find Python interpreter path '' @ p @ ''.''))"
  using assms by (simp add: resolve_interpreter_path_def Let_def)

lemma create_env_simps:
  "environment_for_interpreter_path (snd (create_environment p s)) = environment_for_interpreter_path s"
  "environment_for_interpreter_path (snd (get_default_environment s)) = environment_for_interpreter_path s"
  by (simp_all add: create_environment_def get_default_environment_def)

lemma EnvironmentForInterpreterPath_hit:
  assumes "p \<noteq> []" and "FindExecutable ext (ExpandVariablesInPath ext p) = Some r" and "r \<noteq> []"
    and "environment_for_interpreter_path s (Some (normpath ext r)) = Some env"
  shows "EnvironmentForInterpreterPath ext (Some p) s =
           (Inr env, note_call (CallFindExecutable (ExpandVariablesInPath ext p)) s)"
  using assms
  by (simp add: EnvironmentForInterpreterPath_def resolve_interpreter_path_def Let_def truthy_def)

lemma EnvironmentForInterpreterPath_stores:
  assumes "p \<noteq> []" and "FindExecutable ext (ExpandVariablesInPath ext p) = Some r" and "r \<noteq> []"
  shows "\<exists>env. fst (EnvironmentForInterpreterPath ext (Some p) s) = Inr env \<and>
           environment_for_interpreter_path (snd (EnvironmentForInterpreterPath ext (Some p) s))
             (Some (normpath ext r)) = Some env"
  using assms
  by (auto simp: EnvironmentForInterpreterPath_def resolve_interpreter_path_def Let_def truthy_def
        create_environment_def get_default_environment_def
      split: option.splits prod.splits)

lemma EnvironmentForInterpreterPath_keeps:
  assumes "environment_for_interpreter_path s k = Some e"
  shows "environment_for_interpreter_path (snd (EnvironmentForInterpreterPath ext ip s)) k = Some e"
proof (cases "resolve_interpreter_path ext ip s")
  case (Pair r s1)
  note c = resolve_interpreter_path_caches(3) [OF Pair]
  show ?thesis
  proof (cases r)
    case (Inl err)
    with Pair c assms show ?thesis by (simp add: EnvironmentForInterpreterPath_def)
  next
    case (Inr key)
    show ?thesis
    proof (cases "environment_for_interpreter_path s1 key")
      case (Some env)
      with Pair Inr c assms show ?thesis by (simp add: EnvironmentForInterpreterPath_def)
    next
      case None
      with c assms have "key \<noteq> k" by auto
      with Pair Inr None c assms show ?thesis
        by (simp add: EnvironmentForInterpreterPath_def create_environment_def
              get_default_environment_def split: prod.splits)
    qed
  qed
qed

lemma EnvironmentForInterpreterPath_mono:
  "environment_for_interpreter_path s \<subseteq>\<^sub>m
     environment_for_interpreter_path (snd (EnvironmentForInterpreterPath ext ip s))"
  by (auto simp: map_le_def EnvironmentForInterpreterPath_keeps)


lemma GetSettings_calls:
  "\<exists>xs. calls (snd (GetSettings ext module fp cd s)) = calls s @ xs"
  by (auto simp: GetSettings_def split: option.splits prod.splits dest: list_of_caches(6))

lemma SettingsForRequest_miss_calls:
  assumes "settings_for_file s (key_of req) = None"
  shows "\<exists>xs. calls (snd (SettingsForRequest ext req s)) =
               calls s @ CallModuleForSourceFile (filepath req) # xs"
proof -
  obtain st s2 where g: "GetSettings ext (ModuleForSourceFile ext (filepath req)) (filepath req)
      (extra_conf_data req) (note_call (CallModuleForSourceFile (filepath req)) s) = (st, s2)"
    by (cases "GetSettings ext (ModuleForSourceFile ext (filepath req)) (filepath req)
      (extra_conf_data req) (note_call (CallModuleForSourceFile (filepath req)) s)")
  from GetSettings_calls [of ext "ModuleForSourceFile ext (filepath req)" "filepath req"
      "extra_conf_data req" "note_call (CallModuleForSourceFile (filepath req)) s"] g
  obtain xs where "calls s2 = calls s @ CallModuleForSourceFile (filepath req) # xs"
    by auto
  with assms g show ?thesis
    by (simp add: SettingsForRequest_def key_of_def Let_def)
qed

lemma SettingsForRequest_calls:
  "\<exists>xs. calls (snd (SettingsForRequest ext req s)) = calls s @ xs"
proof (cases "settings_for_file s (key_of req)")
  case None
  from SettingsForRequest_miss_calls [OF this] show ?thesis by blast
next
  case (Some st)
  then show ?thesis by (simp add: SettingsForRequest_def key_of_def)
qed

lemma SettingsForRequest_other_key:
  assumes "k \<noteq> key_of req"
  shows "settings_for_file (snd (SettingsForRequest ext req s)) k = settings_for_file s k"
  using assms
  by (auto simp: SettingsForRequest_def key_of_def Let_def GetSettings_caches
      split: option.splits prod.splits)




lemma EnvironmentForRequest_hit:
  "environment_for_file s (key_of req) = Some env \<Longrightarrow>
   EnvironmentForRequest ext req s = (Inr env, s)"
  by (simp add: EnvironmentForRequest_def key_of_def)

lemma EnvironmentForRequest_miss:
  assumes "environment_for_file s (key_of req) = None"
    and "SettingsForRequest ext req s = (st, s1)"
    and "EnvironmentForInterpreterPath ext (interpreter_path st) s1 = (r, s2)"
  shows "EnvironmentForRequest ext req s =
           (case r of
              Inl e \<Rightarrow> (Inl e, s2)
            | Inr env \<Rightarrow> (Inr env, s2\<lparr> environment_for_file :=
                                        (environment_for_file s2)(key_of req \<mapsto> env) \<rparr>))"
  using assms
  by (simp add: EnvironmentForRequest_def key_of_def Let_def split: sum.splits)

lemma EnvironmentForRequest_stores:
  assumes "EnvironmentForRequest ext req s = (Inr env, s1)"
  shows "environment_for_file s1 (key_of req) = Some env"
proof (cases "environment_for_file s (key_of req)")
  case (Some e)
  from EnvironmentForRequest_hit [OF this, of ext] assms Some show ?thesis by simp
next
  case None
  obtain st t1 where a: "SettingsForRequest ext req s = (st, t1)"
    by (cases "SettingsForRequest ext req s")
  obtain r t2 where b: "EnvironmentForInterpreterPath ext (interpreter_path st) t1 = (r, t2)"
    by (cases "EnvironmentForInterpreterPath ext (interpreter_path st) t1")
  from EnvironmentForRequest_miss [OF None a b] assms show ?thesis
    by (auto split: sum.splits)
qed


lemma GetSysPath_effect:
  "environment_for_file (snd (GetSysPath ext req env s)) = environment_for_file s
   \<and> environment_for_interpreter_path (snd (GetSysPath ext req env s)) = environment_for_interpreter_path s
   \<and> sys_path_for_file (snd (GetSysPath ext req env s)) = sys_path_for_file s
   \<and> next_env (snd (GetSysPath ext req env s)) = next_env s
   \<and> (\<forall>k. k \<noteq> key_of req \<longrightarrow>
          settings_for_file (snd (GetSysPath ext req env s)) k = settings_for_file s k)
   \<and> (\<exists>pre post. calls (snd (GetSysPath ext req env s)) = calls s @ pre @ CallGetSysPath env # post)"
proof -
  obtain e0 s0 where n: "new_list [] s = (e0, s0)" by (cases "new_list [] s")
  have n0: "settings_for_file s0 = settings_for_file s" "environment_for_file s0 = environment_for_file s"
    "environment_for_interpreter_path s0 = environment_for_interpreter_path s"
    "sys_path_for_file s0 = sys_path_for_file s" "next_env s0 = next_env s" "calls s0 = calls s"
    using new_list_simps [of "[]" s] n by simp_all
  obtain st s1 where a: "SettingsForRequest ext req s0 = (st, s1)"
    by (cases "SettingsForRequest ext req s0")
  note o = SettingsForRequest_other [OF a]
  from SettingsForRequest_calls [of ext req s0] a n0 obtain pre where pre: "calls s1 = calls s @ pre"
    by auto
  have k: "\<forall>k. k \<noteq> key_of req \<longrightarrow> settings_for_file s1 k = settings_for_file s k"
    using SettingsForRequest_other_key [of _ req ext s0] a n0 by simp
  have c: "\<exists>post. calls (snd (GetSysPath ext req env s)) = calls s @ pre @ CallGetSysPath env # post"
    using n a pre
    by (auto simp: GetSysPath_def Let_def key_of_def split: option.splits prod.splits
        dest: list_of_caches(6))
  have r: "environment_for_file (snd (GetSysPath ext req env s)) = environment_for_file s
   \<and> environment_for_interpreter_path (snd (GetSysPath ext req env s)) = environment_for_interpreter_path s
   \<and> sys_path_for_file (snd (GetSysPath ext req env s)) = sys_path_for_file s
   \<and> next_env (snd (GetSysPath ext req env s)) = next_env s
   \<and> settings_for_file (snd (GetSysPath ext req env s)) = settings_for_file s1"
    using n a o n0
    by (auto simp: GetSysPath_def Let_def key_of_def split: option.splits prod.splits
        dest: list_of_caches)
  from r k c show ?thesis by auto
qed

lemma SysPathForFile_hit:
  "sys_path_for_file s (key_of req) = Some sp \<Longrightarrow> SysPathForFile ext req env s = (sp, s)"
  by (simp add: SysPathForFile_def key_of_def)

lemma SysPathForFile_miss:
  assumes "sys_path_for_file s (key_of req) = None"
  shows "SysPathForFile ext req env s =
           (fst (GetSysPath ext req env s),
            (snd (GetSysPath ext req env s))\<lparr> sys_path_for_file :=
               (sys_path_for_file (snd (GetSysPath ext req env s)))
                 (key_of req \<mapsto> fst (GetSysPath ext req env s)) \<rparr>)"
  using assms by (simp add: SysPathForFile_def key_of_def Let_def split: prod.splits)

lemma SysPathForFile_stores:
  assumes "SysPathForFile ext req env s = (sp, s1)"
  shows "sys_path_for_file s1 (key_of req) = Some sp"
proof (cases "sys_path_for_file s (key_of req)")
  case (Some x)
  from SysPathForFile_hit [OF this, of ext env] assms Some show ?thesis by simp
next
  case None
  from SysPathForFile_miss [OF this, of ext env] assms show ?thesis by auto
qed

lemma SysPathForFile_environment_for_file:
  "environment_for_file (snd (SysPathForFile ext req env s)) = environment_for_file s"
proof (cases "sys_path_for_file s (key_of req)")
  case (Some x)
  from SysPathForFile_hit [OF this, of ext env] show ?thesis by simp
next
  case None
  from SysPathForFile_miss [OF this, of ext env] GetSysPath_effect [of ext req env s]
  show ?thesis by simp
qed









lemma EnvironmentForRequest_mono:
  "environment_for_interpreter_path s \<subseteq>\<^sub>m
     environment_for_interpreter_path (snd (EnvironmentForRequest ext req s))"
proof (cases "environment_for_file s (key_of req)")
  case (Some e)
  from EnvironmentForRequest_hit [OF this, of ext] show ?thesis by simp
next
  case None
  obtain st t1 where a: "SettingsForRequest ext req s = (st, t1)"
    by (cases "SettingsForRequest ext req s")
  obtain r t2 where b: "EnvironmentForInterpreterPath ext (interpreter_path st) t1 = (r, t2)"
    by (cases "EnvironmentForInterpreterPath ext (interpreter_path st) t1")
  from EnvironmentForInterpreterPath_mono [of t1 ext "interpreter_path st"] b
    SettingsForRequest_other(2) [OF a]
  have "environment_for_interpreter_path s \<subseteq>\<^sub>m environment_for_interpreter_path t2" by simp
  with EnvironmentForRequest_miss [OF None a b] show ?thesis
    by (auto split: sum.splits)
qed

lemma SysPathForFile_mono:
  "environment_for_interpreter_path s \<subseteq>\<^sub>m
     environment_for_interpreter_path (snd (SysPathForFile ext req env s))"
proof (cases "sys_path_for_file s (key_of req)")
  case (Some x)
  from SysPathForFile_hit [OF this, of ext env] show ?thesis by simp
next
  case None
  from SysPathForFile_miss [OF this, of ext env] GetSysPath_effect [of ext req env s]
  show ?thesis by simp
qed

lemma OnFileReadyToParse_mono:
  "environment_for_interpreter_path s \<subseteq>\<^sub>m
     environment_for_interpreter_path (snd (OnFileReadyToParse ext req s))"
proof (cases "EnvironmentForRequest ext req s")
  case (Pair r s1)
  from EnvironmentForRequest_mono [of s ext req] Pair
  have m: "environment_for_interpreter_path s \<subseteq>\<^sub>m environment_for_interpreter_path s1" by simp
  show ?thesis
  proof (cases r)
    case (Inl e)
    with Pair m show ?thesis by (simp add: OnFileReadyToParse_def)
  next
    case (Inr env)
    from map_le_trans [OF m SysPathForFile_mono [of s1 ext req env]] Pair Inr
    show ?thesis
      by (cases "SysPathForFile ext req env s1") (simp add: OnFileReadyToParse_def)
  qed
qed

lemma join_eq_Nil_iff: "sep \<noteq> [] \<Longrightarrow> join sep xs = [] \<longleftrightarrow> xs = [] \<or> xs = [[]]"
  by (induction sep xs rule: join.induct) auto

lemma DetailCandidates_length: "length (DetailCandidates req cs) = length cs"
  by (induction cs) (auto split: extra_data.splits)

lemma DetailCandidates_idem:
  "DetailCandidates req' (DetailCandidates req cs) = DetailCandidates req cs"
  by (induction cs) (auto split: extra_data.splits)

lemma DetailCandidates_nth:
  "i < length cs \<Longrightarrow>
   DetailCandidates req cs ! i = hd (DetailCandidates req [cs ! i])"
  by (induction cs arbitrary: i) (auto simp: nth_Cons split: nat.splits extra_data.splits)

lemma GetDoc_result:
  assumes "GetJediScript ext req s = (Inr sc, s1)"
  shows "GetDoc ext req s =
           (if join doc_separator (map docstring (goto_definitions ext sc)) = []
            then Inl (RuntimeError ''No documentation available.'')
            else Inr (DetailedInfoResponse
                        (join doc_separator (map docstring (goto_definitions ext sc)))), s1)"
  using assms by (simp add: GetDoc_def Let_def)

lemma GetType_result:
  assumes "GetJediScript ext req s = (Inr sc, s1)"
  shows "GetType ext req s =
           (if join '', '' (map BuildTypeInfo (goto_definitions ext sc)) = []
            then Inl (RuntimeError ''No type information available.'')
            else Inr (DisplayMessageResponse
                        (join '', '' (map BuildTypeInfo (goto_definitions ext sc)))), s1)"
  using assms by (simp add: GetType_def Let_def)

lemma BuildTypeInfo_eq_Nil: "BuildTypeInfo d = [] \<longleftrightarrow> description d = [] \<and> params d = None"
  by (simp add: BuildTypeInfo_def split: option.splits)


lemma resolve_interpreter_path_error:
  "fst (resolve_interpreter_path ext ip s) = Inl e \<Longrightarrow>
   \<exists>p. e = RuntimeError (''Cannot find Python interpreter path '' @ p @ ''.'')"
  by (auto simp: resolve_interpreter_path_def Let_def split: option.splits if_splits)

lemma EnvironmentForInterpreterPath_error:
  "fst (EnvironmentForInterpreterPath ext ip s) = Inl e \<Longrightarrow>
   \<exists>p. e = RuntimeError (''Cannot find Python interpreter path '' @ p @ ''.'')"
  using resolve_interpreter_path_error [of ext ip s e]
  by (cases "resolve_interpreter_path ext ip s")
     (auto simp: EnvironmentForInterpreterPath_def Let_def split: sum.splits option.splits prod.splits)

lemma EnvironmentForRequest_error:
  assumes "fst (EnvironmentForRequest ext req s) = Inl e"
  shows "\<exists>p. e = RuntimeError (''Cannot find Python interpreter path '' @ p @ ''.'')"
proof (cases "environment_for_file s (key_of req)")
  case (Some env)
  from EnvironmentForRequest_hit [OF this, of ext] assms show ?thesis by simp
next
  case None
  obtain st t1 where a: "SettingsForRequest ext req s = (st, t1)"
    by (cases "SettingsForRequest ext req s")
  obtain r t2 where b: "EnvironmentForInterpreterPath ext (interpreter_path st) t1 = (r, t2)"
    by (cases "EnvironmentForInterpreterPath ext (interpreter_path st) t1")
  from EnvironmentForRequest_miss [OF None a b] assms have "r = Inl e"
    by (auto split: sum.splits)
  with b EnvironmentForInterpreterPath_error [of ext "interpreter_path st" t1 e]
  show ?thesis by simp
qed

lemma GetJediScript_error:
  assumes "fst (GetJediScript ext req s) = Inl e"
  shows "\<exists>p. e = RuntimeError (''Cannot find Python interpreter path '' @ p @ ''.'')"
proof -
  from assms have "fst (EnvironmentForRequest ext req s) = Inl e"
    by (cases "EnvironmentForRequest ext req s")
       (auto simp: GetJediScript_def Let_def split: sum.splits prod.splits)
  then show ?thesis by (rule EnvironmentForRequest_error)
qed

lemma GetJediScript_cached:
  assumes "GetJediScript ext req s = (Inr sc, s1)"
  shows "cached req s1"
proof -
  from assms obtain env t1 sp where
    e: "EnvironmentForRequest ext req s = (Inr env, t1)" and p: "SysPathForFile ext req env t1 = (sp, s1)"
    by (cases "EnvironmentForRequest ext req s")
       (auto simp: GetJediScript_def Let_def split: sum.splits prod.splits)
  from EnvironmentForRequest_stores [OF e] SysPathForFile_environment_for_file [of ext req env t1] p
    SysPathForFile_stores [OF p]
  show ?thesis by (simp add: cached_def)
qed

lemma GetJediScriptForDefinition_cached:
  assumes "cached req s"
  shows "\<exists>sc. GetJediScriptForDefinition ext req d s = (Inr sc, s)"
proof -
  from assms obtain env sp where "environment_for_file s (key_of req) = Some env"
    and "sys_path_for_file s (key_of req) = Some sp"
    by (auto simp: cached_def)
  then show ?thesis
    by (simp add: GetJediScriptForDefinition_def EnvironmentForRequest_hit SysPathForFile_hit Let_def)
qed

lemma GoToDefinitionsWithSameName_cached:
  assumes "cached req s"
  shows "GoToDefinitionsWithSameName ext req d s = (Inr (same_name_at ext req s d), s)"
proof -
  from GetJediScriptForDefinition_cached [OF assms, of ext d]
  obtain sc where "GetJediScriptForDefinition ext req d s = (Inr sc, s)" by blast
  then show ?thesis
    by (simp add: same_name_at_def GoToDefinitionsWithSameName_def)
qed

lemma chase_for_cached:
  assumes "cached req s"
  shows "chase_for ext req ds (acc, keep) s =
           (Inr (acc @ concat (map (replaced_by ext req s) ds),
                 keep \<or> (\<exists>d\<in>set ds. same_name_at ext req s d \<noteq> [])), s)"
proof (induction ds arbitrary: acc keep)
  case Nil
  show ?case by simp
next
  case (Cons d ds)
  show ?case
    by (simp add: GoToDefinitionsWithSameName_cached [OF assms] Cons replaced_by_def)
qed

lemma chase_rounds_cached:
  assumes "cached req s"
  shows "chase_rounds (Suc n) ext req ds s =
           (if \<exists>d\<in>set ds. same_name_at ext req s d \<noteq> []
            then chase_rounds n ext req (concat (map (replaced_by ext req s) ds)) s
            else Some (Inr (concat (map (replaced_by ext req s) ds)), s))"
  by (simp add: chase_for_cached [OF assms])

lemma chase_while_cached:
  assumes "cached req s"
  shows "chase_while ext req ds s =
           (if \<exists>d\<in>set ds. same_name_at ext req s d \<noteq> []
            then chase_while ext req (concat (map (replaced_by ext req s) ds)) s
            else Some (Inr (concat (map (replaced_by ext req s) ds)), s))"
  by (subst chase_while.simps) (simp add: chase_for_cached [OF assms])

lemma chase_rounds_chase_while:
  "chase_rounds n ext req ds s = Some r \<Longrightarrow> chase_while ext req ds s = Some r"
proof (induction n arbitrary: ds s)
  case 0
  then show ?case by simp
next
  case (Suc n)
  show ?case
  proof (cases "chase_for ext req ds ([], False) s")
    case (Pair x s1)
    show ?thesis
    proof (cases x)
      case (Inl e)
      with Pair Suc.prems show ?thesis by (subst chase_while.simps) simp
    next
      case (Inr p)
      obtain ds' keep where p: "p = (ds', keep)" by (cases p)
      show ?thesis
      proof (cases keep)
        case True
        with Pair Inr p Suc.prems have "chase_rounds n ext req ds' s1 = Some r" by simp
        from Suc.IH [OF this] Pair Inr p True show ?thesis
          by (subst chase_while.simps) simp
      next
        case False
        with Pair Inr p Suc.prems show ?thesis by (subst chase_while.simps) simp
      qed
    qed
  qed
qed

lemmas cache_defs =
  OnFileReadyToParse_def EnvironmentForRequest_def SettingsForRequest_def GetSettings_def
  default_settings_def EnvironmentForInterpreterPath_def resolve_interpreter_path_def
  get_default_environment_def create_environment_def SysPathForFile_def GetSysPath_def
  new_list_def list_of_def note_call_def truthy_def key_of_def Let_def

section \<open>Facts about sessions, responses and the chase\<close>

lemma gotos_of_error: "gotos_of ds = Inl e \<Longrightarrow> e = TypeError"
  by (induction ds arbitrary: e) (auto split: option.splits sum.splits)

lemma gotos_of_ok: "\<forall>d\<in>set ds. column d \<noteq> None \<Longrightarrow> \<exists>gs. gotos_of ds = Inr gs"
  by (induction ds) auto

lemma BuildGoToResponse_error: "BuildGoToResponse ds = Inl e \<Longrightarrow> e = TypeError"
  by (auto simp: BuildGoToResponse_def Let_def gotos_of_error split: if_splits option.splits sum.splits)

lemma BuildGoToResponse_ok:
  assumes "\<forall>d\<in>set ds. column d \<noteq> None"
  shows "\<exists>r. BuildGoToResponse ds = Inr r"
proof (cases "length ds = 1")
  case True
  then obtain d where "ds = [d]" by (cases ds) auto
  with assms show ?thesis by (auto simp: BuildGoToResponse_def)
next
  case False
  with gotos_of_ok [OF assms] show ?thesis by (auto simp: BuildGoToResponse_def)
qed

lemma chase_while_cached_shape:
  assumes "chase_while ext req ds s = Some r"
  shows "cached req s \<longrightarrow> (\<exists>ds'. r = (Inr ds', s) \<and> (ds' = [] \<longleftrightarrow> ds = []))"
proof (rule chase_while.raw_induct
    [where P = "\<lambda>ext req ds s r. cached req s \<longrightarrow> (\<exists>ds'. r = (Inr ds', s) \<and> (ds' = [] \<longleftrightarrow> ds = []))",
     OF _ assms])
  fix chase ext req ds s r
  assume IH: "\<And>ext req ds s r. chase ext req ds s = Some r \<Longrightarrow>
                cached req s \<longrightarrow> (\<exists>ds'. r = (Inr ds', s) \<and> (ds' = [] \<longleftrightarrow> ds = []))"
    and body: "(case chase_for ext req ds ([], False) s of
                  (Inl e, s1) \<Rightarrow> Some (Inl e, s1)
                | (Inr (definitions', keep_traversing), s1) \<Rightarrow>
                    if keep_traversing then chase ext req definitions' s1
                    else Some (Inr definitions', s1)) = Some r"
  show "cached req s \<longrightarrow> (\<exists>ds'. r = (Inr ds', s) \<and> (ds' = [] \<longleftrightarrow> ds = []))"
  proof
    assume c: "cached req s"
    have e: "concat (map (replaced_by ext req s) ds) = [] \<longleftrightarrow> ds = []"
      by (cases ds) (auto simp: replaced_by_def)
    show "\<exists>ds'. r = (Inr ds', s) \<and> (ds' = [] \<longleftrightarrow> ds = [])"
    proof (cases "\<exists>d\<in>set ds. same_name_at ext req s d \<noteq> []")
      case True
      with body chase_for_cached [OF c, of ext ds "[]" False]
      have "chase ext req (concat (map (replaced_by ext req s) ds)) s = Some r" by simp
      from IH [OF this] c e show ?thesis by auto
    next
      case False
      with body chase_for_cached [OF c, of ext ds "[]" False] e show ?thesis by auto
    qed
  qed
qed

lemma GoToDefinition_result:
  assumes "GetJediScript ext req s = (Inr sc, s1)"
    and "chase_while ext req (goto_assignments ext sc) s1 = Some (Inr ds, s2)"
  shows "GoToDefinition ext req s =
           Some (if ds = [] then Inl (RuntimeError ''Can't jump to definition.'')
                 else BuildGoToResponse ds, s2)"
  using assms by (simp add: GoToDefinition_def)

lemma GoToDefinition_navigation_error:
  "GoToDefinition ext req s = Some (Inl (RuntimeError ''Can't jump to definition.''), s') \<longleftrightarrow>
   (\<exists>sc s1. GetJediScript ext req s = (Inr sc, s1)
      \<and> chase_while ext req (goto_assignments ext sc) s1 = Some (Inr [], s'))"
proof
  assume a: "GoToDefinition ext req s = Some (Inl (RuntimeError ''Can't jump to definition.''), s')"
  obtain r s1 where g: "GetJediScript ext req s = (r, s1)" by (cases "GetJediScript ext req s")
  show "\<exists>sc s1. GetJediScript ext req s = (Inr sc, s1)
      \<and> chase_while ext req (goto_assignments ext sc) s1 = Some (Inr [], s')"
  proof (cases r)
    case (Inl e)
    with g a have "e = RuntimeError ''Can't jump to definition.''"
      by (simp add: GoToDefinition_def)
    moreover from GetJediScript_error [of ext req s e] g Inl
    obtain p where "e = RuntimeError (''Cannot find Python interpreter path '' @ p @ ''.'')" by auto
    ultimately show ?thesis by simp
  next
    case (Inr sc)
    note c = GetJediScript_cached [OF g [unfolded Inr]]
    from a g Inr obtain r2 where w: "chase_while ext req (goto_assignments ext sc) s1 = Some r2"
      by (cases "chase_while ext req (goto_assignments ext sc) s1") (auto simp: GoToDefinition_def)
    from chase_while_cached_shape [OF w] c obtain ds where r2: "r2 = (Inr ds, s1)" by blast
    from a g Inr w r2 BuildGoToResponse_error [of ds "RuntimeError ''Can't jump to definition.''"]
    have "ds = [] \<and> s' = s1"
      by (auto simp: GoToDefinition_def split: if_splits)
    with g Inr w r2 show ?thesis by simp
  qed
next
  assume "\<exists>sc s1. GetJediScript ext req s = (Inr sc, s1)
      \<and> chase_while ext req (goto_assignments ext sc) s1 = Some (Inr [], s')"
  then show "GoToDefinition ext req s = Some (Inl (RuntimeError ''Can't jump to definition.''), s')"
    by (auto simp: GoToDefinition_def)
qed

lemma GoToType_navigation_error:
  "fst (GoToType ext req s) = Inl (RuntimeError ''Can't jump to type definition.'') \<longleftrightarrow>
   (\<exists>sc. fst (GetJediScript ext req s) = Inr sc \<and> goto_definitions ext sc = [])"
proof (cases "GetJediScript ext req s")
  case (Pair r s1)
  show ?thesis
  proof (cases r)
    case (Inl e)
    from GetJediScript_error [of ext req s e] Pair Inl
    obtain p where "e = RuntimeError (''Cannot find Python interpreter path '' @ p @ ''.'')" by auto
    with Pair Inl show ?thesis by (simp add: GoToType_def)
  next
    case (Inr sc)
    with Pair BuildGoToResponse_error [of "goto_definitions ext sc"
        "RuntimeError ''Can't jump to type definition.''"]
    show ?thesis by (auto simp: GoToType_def Let_def)
  qed
qed

lemma GoToReferences_navigation_error:
  "fst (GoToReferences ext req s) = Inl (RuntimeError ''Can't find references.'') \<longleftrightarrow>
   (\<exists>sc. fst (GetJediScript ext req s) = Inr sc \<and> usages ext sc = [])"
proof (cases "GetJediScript ext req s")
  case (Pair r s1)
  show ?thesis
  proof (cases r)
    case (Inl e)
    from GetJediScript_error [of ext req s e] Pair Inl
    obtain p where "e = RuntimeError (''Cannot find Python interpreter path '' @ p @ ''.'')" by auto
    with Pair Inl show ?thesis by (simp add: GoToReferences_def)
  next
    case (Inr sc)
    with Pair BuildGoToResponse_error [of "usages ext sc" "RuntimeError ''Can't find references.''"]
    show ?thesis by (auto simp: GoToReferences_def Let_def)
  qed
qed

lemma same_name_at_mem:
  "d' \<in> set (same_name_at ext req s d) \<Longrightarrow> name d' = name d \<and> place d' \<noteq> place d"
  by (cases "GetJediScriptForDefinition ext req d s")
     (auto simp: same_name_at_def GoToDefinitionsWithSameName_def place_def
        split: if_splits sum.splits)

lemma same_name_at_cong:
  assumes "place d = place d'" and "name d = name d'"
  shows "same_name_at ext req s d = same_name_at ext req s d'"
proof -
  from assms have e: "module_path d = module_path d'" "line d = line d'" "column d = column d'"
    by (simp_all add: place_def)
  show ?thesis
    unfolding same_name_at_def GoToDefinitionsWithSameName_def GetJediScriptForDefinition_def
      e assms(2) ..
qed

lemma same_name_at_fst:
  "fst (GoToDefinitionsWithSameName ext req d s) = Inr ds \<Longrightarrow> same_name_at ext req s d = ds"
  by (simp add: same_name_at_def)

lemma BuildGoToResponse_single:
  "column d = Some c \<Longrightarrow>
   BuildGoToResponse [d] = Inr (GoToResponse (GoToLocation (module_path d) (line d) (c + 1) None))"
  by (simp add: BuildGoToResponse_def)

lemma GetJediScriptForDefinition_place:
  "fst (GetJediScriptForDefinition ext req d s) = Inr sc \<Longrightarrow> script_place sc = place d"
  by (cases "EnvironmentForRequest ext req s")
     (auto simp: GetJediScriptForDefinition_def Let_def script_place_def place_def
        split: sum.splits prod.splits)

lemma same_name_at_cached_form:
  assumes "cached req s"
  shows "\<exists>sc. fst (GetJediScriptForDefinition ext req d s) = Inr sc \<and> script_place sc = place d \<and>
           same_name_at ext req s d =
             (if \<not> truthy (module_path d) then []
              else filter (\<lambda>d'. name d' = name d \<and> place d' \<noteq> place d) (goto_assignments ext sc))"
proof -
  from GetJediScriptForDefinition_cached [OF assms, of ext d]
  obtain sc where sc: "GetJediScriptForDefinition ext req d s = (Inr sc, s)" by blast
  then have "fst (GetJediScriptForDefinition ext req d s) = Inr sc" by simp
  from this GetJediScriptForDefinition_place [OF this] sc show ?thesis
    by (auto simp: same_name_at_def GoToDefinitionsWithSameName_def place_def intro!: filter_cong)
qed

lemma same_name_at_only_itself:
  assumes "fst (GetJediScriptForDefinition ext req d s) = Inr sc"
    and "\<forall>d'\<in>set (goto_assignments ext sc). place d' = place d"
  shows "same_name_at ext req s d = []"
proof -
  from assms(1) obtain s1 where "GetJediScriptForDefinition ext req d s = (Inr sc, s1)"
    by (cases "GetJediScriptForDefinition ext req d s") auto
  with assms(2) show ?thesis
    by (auto simp: same_name_at_def GoToDefinitionsWithSameName_def place_def filter_empty_conv)
qed

lemma chase_rounds_rank:
  assumes c: "cached req s"
    and dec: "\<forall>d d'. d' \<in> set (same_name_at ext req s d) \<longrightarrow> rank d' < (rank d :: nat)"
  shows "(\<forall>d\<in>set ds. same_name_at ext req s d \<noteq> [] \<longrightarrow> rank d \<le> n) \<Longrightarrow>
         \<exists>ds'. chase_rounds (Suc n) ext req ds s = Some (Inr ds', s) \<and>
               (\<forall>d\<in>set ds'. same_name_at ext req s d = [])"
proof (induction n arbitrary: ds)
  case 0
  have t: "\<forall>d\<in>set ds. same_name_at ext req s d = []"
  proof
    fix d assume d: "d \<in> set ds"
    show "same_name_at ext req s d = []"
    proof (rule ccontr)
      assume n: "same_name_at ext req s d \<noteq> []"
      then obtain d' where "d' \<in> set (same_name_at ext req s d)" by (cases "same_name_at ext req s d") auto
      with dec have "rank d' < rank d" by blast
      moreover from 0 d n have "rank d \<le> 0" by blast
      ultimately show False by simp
    qed
  qed
  then have "concat (map (replaced_by ext req s) ds) = ds"
    by (induction ds) (auto simp: replaced_by_def)
  with t show ?case
    by (simp add: chase_rounds_cached [OF c] del: chase_rounds.simps(2))
next
  case (Suc n)
  show ?case
  proof (cases "\<exists>d\<in>set ds. same_name_at ext req s d \<noteq> []")
    case False
    then have "concat (map (replaced_by ext req s) ds) = ds"
      by (induction ds) (auto simp: replaced_by_def)
    with False show ?thesis
      by (simp add: chase_rounds_cached [OF c] del: chase_rounds.simps(2))
  next
    case True
    have "\<forall>d\<in>set (concat (map (replaced_by ext req s) ds)).
            same_name_at ext req s d \<noteq> [] \<longrightarrow> rank d \<le> n"
    proof (intro ballI impI)
      fix d' assume m: "d' \<in> set (concat (map (replaced_by ext req s) ds))"
        and n: "same_name_at ext req s d' \<noteq> []"
      from m obtain d where d: "d \<in> set ds" and r: "d' \<in> set (replaced_by ext req s d)" by auto
      show "rank d' \<le> n"
      proof (cases "same_name_at ext req s d = []")
        case True
        with r have "d' = d" by (simp add: replaced_by_def)
        with True n show ?thesis by simp
      next
        case False
        with r have "d' \<in> set (same_name_at ext req s d)" by (simp add: replaced_by_def)
        with dec have "rank d' < rank d" by blast
        moreover from Suc.prems d False have "rank d \<le> Suc n" by blast
        ultimately show ?thesis by simp
      qed
    qed
    from Suc.IH [OF this] True show ?thesis
      by (subst chase_rounds_cached [OF c]) simp
  qed
qed

lemma GetDoc_fails_iff:
  assumes "GetJediScript ext req s = (Inr sc, s1)"
  shows "fst (GetDoc ext req s) = Inl (RuntimeError ''No documentation available.'') \<longleftrightarrow>
           goto_definitions ext sc = [] \<or>
           (\<exists>d. goto_definitions ext sc = [d] \<and> docstring d = [])"
proof -
  have "doc_separator \<noteq> []" by (simp add: doc_separator_def)
  from join_eq_Nil_iff [OF this, of "map docstring (goto_definitions ext sc)"]
  show ?thesis
    by (auto simp: GetDoc_result [OF assms] map_eq_Cons_conv)
qed

lemma GetType_navigation_error:
  "fst (GetType ext req s) = Inl (RuntimeError ''No type information available.'') \<longleftrightarrow>
   (\<exists>sc. fst (GetJediScript ext req s) = Inr sc \<and>
      (goto_definitions ext sc = [] \<or>
       (\<exists>d. goto_definitions ext sc = [d] \<and> description d = [] \<and> params d = None)))"
proof (cases "GetJediScript ext req s")
  case (Pair r s1)
  show ?thesis
  proof (cases r)
    case (Inl e)
    from GetJediScript_error [of ext req s e] Pair Inl
    obtain p where "e = RuntimeError (''Cannot find Python interpreter path '' @ p @ ''.'')" by auto
    with Pair Inl show ?thesis by (simp add: GetType_def)
  next
    case (Inr sc)
    have "'', '' \<noteq> []" by simp
    from join_eq_Nil_iff [OF this, of "map BuildTypeInfo (goto_definitions ext sc)"]
    show ?thesis
      using Pair Inr
      by (auto simp: GetType_result [of ext req s sc s1] map_eq_Cons_conv BuildTypeInfo_eq_Nil)
  qed
qed

section \<open>Facts about the concrete engines\<close>

lemma session_built:
  assumes "ModuleForSourceFile ext = (\<lambda>fp. None)" and "python_binary_path ext = []"
    and "get_sys_path ext = (\<lambda>env. [''/usr/lib/python3''])"
  shows "GetJediScript ext demo_request init = (Inr demo_script, after_session ext demo_request)"
    and "GetJediScript ext direct_request init = (Inr direct_script, after_session ext direct_request)"
    and "cached demo_request (after_session ext demo_request)"
    and "cached direct_request (after_session ext direct_request)"
proof -
  have "fst (GetJediScript ext demo_request init) = Inr demo_script"
    using assms
    by (simp add: GetJediScript_def cache_defs demo_request_def init_def demo_script_def)
  then show a: "GetJediScript ext demo_request init = (Inr demo_script, after_session ext demo_request)"
    unfolding after_session_def by (metis prod.collapse)
  have "fst (GetJediScript ext direct_request init) = Inr direct_script"
    using assms
    by (simp add: GetJediScript_def cache_defs direct_request_def init_def direct_script_def)
  then show b: "GetJediScript ext direct_request init = (Inr direct_script, after_session ext direct_request)"
    unfolding after_session_def by (metis prod.collapse)
  from a show "cached demo_request (after_session ext demo_request)" by (rule GetJediScript_cached)
  from b show "cached direct_request (after_session ext direct_request)" by (rule GetJediScript_cached)
qed

lemma chain_world:
  "ModuleForSourceFile chain_externals = (\<lambda>fp. None)"
  "python_binary_path chain_externals = []"
  "get_sys_path chain_externals = (\<lambda>env. [''/usr/lib/python3''])"
  by (simp_all add: chain_externals_def demo_externals_def)

lemmas chain_session = session_built [OF chain_world]

lemma cyclic_world:
  "ModuleForSourceFile cyclic_externals = (\<lambda>fp. None)"
  "python_binary_path cyclic_externals = []"
  "get_sys_path cyclic_externals = (\<lambda>env. [''/usr/lib/python3''])"
  by (simp_all add: cyclic_externals_def demo_externals_def)

lemmas cyclic_session = session_built [OF cyclic_world]

lemma demo_world:
  "ModuleForSourceFile demo_externals = (\<lambda>fp. None)"
  "python_binary_path demo_externals = []"
  "get_sys_path demo_externals = (\<lambda>env. [''/usr/lib/python3''])"
  by (simp_all add: demo_externals_def)

lemmas demo_session = session_built [OF demo_world]

lemma undocumented_world:
  "ModuleForSourceFile undocumented_externals = (\<lambda>fp. None)"
  "python_binary_path undocumented_externals = []"
  "get_sys_path undocumented_externals = (\<lambda>env. [''/usr/lib/python3''])"
  by (simp_all add: undocumented_externals_def demo_externals_def)

lemmas undocumented_session = session_built [OF undocumented_world]

lemma blank_world:
  "ModuleForSourceFile blank_externals = (\<lambda>fp. None)"
  "python_binary_path blank_externals = []"
  "get_sys_path blank_externals = (\<lambda>env. [''/usr/lib/python3''])"
  by (simp_all add: blank_externals_def demo_externals_def)

lemmas blank_session = session_built [OF blank_world]

lemma builtin_world:
  "ModuleForSourceFile builtin_externals = (\<lambda>fp. None)"
  "python_binary_path builtin_externals = []"
  "get_sys_path builtin_externals = (\<lambda>env. [''/usr/lib/python3''])"
  by (simp_all add: builtin_externals_def demo_externals_def)

lemmas builtin_session = session_built [OF builtin_world]

lemma places:
  "place def_a = (Some ''/project/a.py'', Some 1, Some 14)"
  "place def_b = (Some ''/project/b.py'', Some 1, Some 14)"
  "place def_c = (Some ''/project/c.py'', Some 5, Some 4)"
  "script_place demo_script = (Some ''/project/a.py'', Some 3, Some 4)"
  "script_place direct_script = (Some ''/project/c.py'', Some 5, Some 4)"
  by (simp_all add: place_def script_place_def def_a_def def_b_def def_c_def demo_script_def
        direct_script_def)

lemma chain_assignments:
  "script_place sc = (Some ''/project/a.py'', Some 3, Some 4) \<Longrightarrow>
     goto_assignments chain_externals sc = [def_a]"
  "script_place sc = (Some ''/project/a.py'', Some 1, Some 14) \<Longrightarrow>
     goto_assignments chain_externals sc = [def_a, def_b]"
  "script_place sc = (Some ''/project/b.py'', Some 1, Some 14) \<Longrightarrow>
     goto_assignments chain_externals sc = [def_c]"
  "script_place sc = (Some ''/project/c.py'', Some 5, Some 4) \<Longrightarrow>
     goto_assignments chain_externals sc = [def_c]"
  by (simp_all add: chain_externals_def)

lemma chain_same_name:
  assumes "cached req s"
  shows "same_name_at chain_externals req s def_a = [def_b]"
    and "same_name_at chain_externals req s def_b = [def_c]"
    and "same_name_at chain_externals req s def_c = []"
proof -
  from same_name_at_cached_form [OF assms, of chain_externals def_a]
  show "same_name_at chain_externals req s def_a = [def_b]"
    by (auto simp: places chain_assignments) (simp_all add: truthy_def def_a_def def_b_def)
  from same_name_at_cached_form [OF assms, of chain_externals def_b]
  show "same_name_at chain_externals req s def_b = [def_c]"
    by (auto simp: places chain_assignments) (simp_all add: truthy_def def_b_def def_c_def)
  from same_name_at_cached_form [OF assms, of chain_externals def_c]
  show "same_name_at chain_externals req s def_c = []"
    by (auto simp: places chain_assignments)
qed

lemma chain_rank_decreases:
  assumes "cached req s" and "d' \<in> set (same_name_at chain_externals req s d)"
  shows "chain_rank d' < chain_rank d"
proof -
  from same_name_at_cached_form [OF assms(1), of chain_externals d]
  obtain sc where p: "script_place sc = place d"
    and e: "same_name_at chain_externals req s d =
             (if \<not> truthy (module_path d) then []
              else filter (\<lambda>d'. name d' = name d \<and> place d' \<noteq> place d)
                     (goto_assignments chain_externals sc))"
    by blast
  from assms(2) e have m: "d' \<in> set (goto_assignments chain_externals sc)" "place d' \<noteq> place d"
    by (auto split: if_splits)
  from m p show ?thesis
    by (auto simp: chain_externals_def chain_rank_def places split: if_splits)
qed

lemma chain_resolutions:
  assumes "cached req s"
  shows "fst (GoToDefinitionsWithSameName chain_externals req def_a s) = Inr [def_b]"
    and "fst (GoToDefinitionsWithSameName chain_externals req def_b s) = Inr [def_c]"
    and "fst (GoToDefinitionsWithSameName chain_externals req def_c s) = Inr []"
  using GoToDefinitionsWithSameName_cached [OF assms, of chain_externals] chain_same_name [OF assms]
  by simp_all

lemma chain_chase:
  assumes "cached req s"
  shows "chase_rounds 3 chain_externals req [def_a] s = Some (Inr [def_c], s)"
    and "chase_while chain_externals req [def_a] s = Some (Inr [def_c], s)"
proof -
  show r: "chase_rounds 3 chain_externals req [def_a] s = Some (Inr [def_c], s)"
    by (simp add: numeral_3_eq_3 chase_rounds_cached [OF assms] chain_same_name [OF assms]
          replaced_by_def del: chase_rounds.simps(2))
  from chase_rounds_chase_while [OF r]
  show "chase_while chain_externals req [def_a] s = Some (Inr [def_c], s)" .
qed

lemma cyclic_same_name:
  assumes "cached req s"
  shows "same_name_at cyclic_externals req s def_a = [def_b]"
    and "same_name_at cyclic_externals req s def_b = [def_a]"
proof -
  from same_name_at_cached_form [OF assms, of cyclic_externals def_a]
  show "same_name_at cyclic_externals req s def_a = [def_b]"
    by (auto simp: places cyclic_externals_def) (simp_all add: truthy_def def_a_def def_b_def)
  from same_name_at_cached_form [OF assms, of cyclic_externals def_b]
  show "same_name_at cyclic_externals req s def_b = [def_a]"
    by (auto simp: places cyclic_externals_def) (simp_all add: truthy_def def_a_def def_b_def)
qed

lemma cyclic_chase_never_returns:
  assumes "chase_while ext req ds s = Some r"
  shows "ext = cyclic_externals \<and> cached req s \<and> (ds = [def_a] \<or> ds = [def_b]) \<longrightarrow> False"
proof (rule chase_while.raw_induct
    [where P = "\<lambda>ext req ds s r.
        ext = cyclic_externals \<and> cached req s \<and> (ds = [def_a] \<or> ds = [def_b]) \<longrightarrow> False",
     OF _ assms])
  fix chase ext req ds s r
  assume IH: "\<And>ext req ds s r. chase ext req ds s = Some r \<Longrightarrow>
                ext = cyclic_externals \<and> cached req s \<and> (ds = [def_a] \<or> ds = [def_b]) \<longrightarrow> False"
    and body: "(case chase_for ext req ds ([], False) s of
                  (Inl e, s1) \<Rightarrow> Some (Inl e, s1)
                | (Inr (definitions', keep_traversing), s1) \<Rightarrow>
                    if keep_traversing then chase ext req definitions' s1
                    else Some (Inr definitions', s1)) = Some r"
  show "ext = cyclic_externals \<and> cached req s \<and> (ds = [def_a] \<or> ds = [def_b]) \<longrightarrow> False"
  proof
    assume h: "ext = cyclic_externals \<and> cached req s \<and> (ds = [def_a] \<or> ds = [def_b])"
    then have c: "cached req s" by simp
    note n = cyclic_same_name [OF c]
    from h show False
    proof (elim conjE disjE)
      assume "ds = [def_a]" and e: "ext = cyclic_externals"
      with body chase_for_cached [OF c, of ext ds "[]" False] n
      have "chase ext req [def_b] s = Some r" by (simp add: replaced_by_def)
      from IH [OF this] e c show False by simp
    next
      assume "ds = [def_b]" and e: "ext = cyclic_externals"
      with body chase_for_cached [OF c, of ext ds "[]" False] n
      have "chase ext req [def_a] s = Some r" by (simp add: replaced_by_def)
      from IH [OF this] e c show False by simp
    qed
  qed
qed

section \<open>Go to definition follows a chain of aliases\<close>

text \<open>
  Let the session of the request be built, in state \<open>s1\<close>.  When the assignments
  found from the cursor are the single definition \<open>A\<close>, the definitions with the same
  name found from \<open>A\<close> are \<open>B\<close> alone, those found from \<open>B\<close> are \<open>C\<close> alone and none is
  found from \<open>C\<close>, then \<^verbatim>\<open>_GoToDefinition\<close> returns what \<^verbatim>\<open>_BuildGoToResponse\<close>
  makes of \<open>C\<close> alone: the loop makes three rounds, two are not enough, and the place of
  \<open>C\<close> is neither the place of \<open>A\<close> nor that of \<open>B\<close>.  When the assignments found from
  the cursor are a single definition \<open>D\<close> from which none with the same name is found,
  it returns what is made of \<open>D\<close>, and the loop makes one round.  What is made of a
  single definition with a column is its path, its line and its column plus one.
\<close>

lemma chase_follows_alias_chain:
  assumes "GetJediScript ext req s = (Inr sc, s1)"
  shows "(goto_assignments ext sc = [A]
          \<and> fst (GoToDefinitionsWithSameName ext req A s1) = Inr [B]
          \<and> fst (GoToDefinitionsWithSameName ext req B s1) = Inr [C]
          \<and> fst (GoToDefinitionsWithSameName ext req C s1) = Inr []
          \<longrightarrow> GoToDefinition ext req s = Some (BuildGoToResponse [C], s1)
            \<and> chase_rounds 3 ext req [A] s1 = Some (Inr [C], s1)
            \<and> chase_rounds 2 ext req [A] s1 = None
            \<and> place C \<noteq> place A \<and> place C \<noteq> place B
            \<and> (\<forall>c. column C = Some c \<longrightarrow>
                  BuildGoToResponse [C] =
                    Inr (GoToResponse (GoToLocation (module_path C) (line C) (c + 1) None))))
       \<and> (goto_assignments ext sc = [D]
          \<and> fst (GoToDefinitionsWithSameName ext req D s1) = Inr []
          \<longrightarrow> GoToDefinition ext req s = Some (BuildGoToResponse [D], s1)
            \<and> chase_rounds 1 ext req [D] s1 = Some (Inr [D], s1)
            \<and> (\<forall>c. column D = Some c \<longrightarrow>
                  BuildGoToResponse [D] =
                    Inr (GoToResponse (GoToLocation (module_path D) (line D) (c + 1) None))))"
proof (intro conjI impI)
  note c = GetJediScript_cached [OF assms]
  assume h: "goto_assignments ext sc = [A]
          \<and> fst (GoToDefinitionsWithSameName ext req A s1) = Inr [B]
          \<and> fst (GoToDefinitionsWithSameName ext req B s1) = Inr [C]
          \<and> fst (GoToDefinitionsWithSameName ext req C s1) = Inr []"
  then have a: "same_name_at ext req s1 A = [B]" and b: "same_name_at ext req s1 B = [C]"
    and t: "same_name_at ext req s1 C = []"
    by (simp_all add: same_name_at_fst)
  show r3: "chase_rounds 3 ext req [A] s1 = Some (Inr [C], s1)"
    by (simp add: numeral_3_eq_3 chase_rounds_cached [OF c] a b t replaced_by_def
          del: chase_rounds.simps(2))
  show "chase_rounds 2 ext req [A] s1 = None"
    by (simp add: numeral_2_eq_2 chase_rounds_cached [OF c] a b t replaced_by_def
          del: chase_rounds.simps(2))
  from chase_rounds_chase_while [OF r3] h
  have "chase_while ext req (goto_assignments ext sc) s1 = Some (Inr [C], s1)" by simp
  from GoToDefinition_result [OF assms this]
  show "GoToDefinition ext req s = Some (BuildGoToResponse [C], s1)" by simp
  from same_name_at_mem [of C ext req s1 B] b
  have cb: "name C = name B \<and> place C \<noteq> place B" by simp
  then show "place C \<noteq> place B" by simp
  from same_name_at_mem [of B ext req s1 A] a have ba: "name B = name A" by simp
  show "place C \<noteq> place A"
  proof
    assume "place C = place A"
    from same_name_at_cong [OF this, of ext req s1] cb ba a t show False by simp
  qed
  show "\<forall>c. column C = Some c \<longrightarrow>
          BuildGoToResponse [C] =
            Inr (GoToResponse (GoToLocation (module_path C) (line C) (c + 1) None))"
    by (simp add: BuildGoToResponse_single)
next
  note c = GetJediScript_cached [OF assms]
  assume h: "goto_assignments ext sc = [D]
          \<and> fst (GoToDefinitionsWithSameName ext req D s1) = Inr []"
  then have t: "same_name_at ext req s1 D = []" by (simp add: same_name_at_fst)
  show r1: "chase_rounds 1 ext req [D] s1 = Some (Inr [D], s1)"
    using chase_rounds_cached [OF c, of 0 ext "[D]"]
    by (simp add: t replaced_by_def del: chase_rounds.simps(2))
  from chase_rounds_chase_while [OF r1] h
  have "chase_while ext req (goto_assignments ext sc) s1 = Some (Inr [D], s1)" by simp
  from GoToDefinition_result [OF assms this]
  show "GoToDefinition ext req s = Some (BuildGoToResponse [D], s1)" by simp
  show "\<forall>c. column D = Some c \<longrightarrow>
          BuildGoToResponse [D] =
            Inr (GoToResponse (GoToLocation (module_path D) (line D) (c + 1) None))"
    by (simp add: BuildGoToResponse_single)
qed

lemma chase_follows_alias_chain_example:
  "GetJediScript chain_externals demo_request init =
     (Inr demo_script, after_session chain_externals demo_request)
   \<and> goto_assignments chain_externals demo_script = [def_a]
   \<and> fst (GoToDefinitionsWithSameName chain_externals demo_request def_a
            (after_session chain_externals demo_request)) = Inr [def_b]
   \<and> fst (GoToDefinitionsWithSameName chain_externals demo_request def_b
            (after_session chain_externals demo_request)) = Inr [def_c]
   \<and> fst (GoToDefinitionsWithSameName chain_externals demo_request def_c
            (after_session chain_externals demo_request)) = Inr []
   \<and> GoToDefinition chain_externals demo_request init =
       Some (Inr (GoToResponse (GoToLocation (Some ''/project/c.py'') (Some 5) 5 None)),
             after_session chain_externals demo_request)
   \<and> GetJediScript chain_externals direct_request init =
       (Inr direct_script, after_session chain_externals direct_request)
   \<and> goto_assignments chain_externals direct_script = [def_c]
   \<and> fst (GoToDefinitionsWithSameName chain_externals direct_request def_c
            (after_session chain_externals direct_request)) = Inr []
   \<and> GoToDefinition chain_externals direct_request init =
       Some (Inr (GoToResponse (GoToLocation (Some ''/project/c.py'') (Some 5) 5 None)),
             after_session chain_externals direct_request)
   \<and> chase_rounds 1 chain_externals direct_request [def_c]
        (after_session chain_externals direct_request) =
       Some (Inr [def_c], after_session chain_externals direct_request)"
proof -
  note s = chain_session
  note r = chain_resolutions [OF s(3)]
  note r' = chain_resolutions [OF s(4)]
  have a: "goto_assignments chain_externals demo_script = [def_a]"
    by (simp add: chain_assignments places)
  have a': "goto_assignments chain_externals direct_script = [def_c]"
    by (simp add: chain_assignments places)
  have c: "column def_c = Some 4" "module_path def_c = Some ''/project/c.py''" "line def_c = Some 5"
    by (simp_all add: def_c_def)
  from chase_follows_alias_chain [OF s(1), of def_a def_b def_c def_c] a r c
  have g: "GoToDefinition chain_externals demo_request init =
       Some (Inr (GoToResponse (GoToLocation (Some ''/project/c.py'') (Some 5) 5 None)),
             after_session chain_externals demo_request)"
    by simp
  from chase_follows_alias_chain [OF s(2), of def_a def_b def_c def_c] a' r' c
  have g': "GoToDefinition chain_externals direct_request init =
       Some (Inr (GoToResponse (GoToLocation (Some ''/project/c.py'') (Some 5) 5 None)),
             after_session chain_externals direct_request)"
    and "chase_rounds 1 chain_externals direct_request [def_c]
        (after_session chain_externals direct_request) =
       Some (Inr [def_c], after_session chain_externals direct_request)"
    by simp_all
  with s(1,2) a a' r r'(3) g show ?thesis by blast
qed

text \<open>
  C1.  The cursor is on a builtin: the one assignment found has no module path, no line
  and no column, and nothing is found from it, so it is the final definition after one
  round.  \<^verbatim>\<open>_BuildGoToResponse\<close> then adds one to the column, which is
  \<^verbatim>\<open>None\<close>: \<^verbatim>\<open>_GoToDefinition\<close> raises \<^verbatim>\<open>TypeError\<close> and does not return the
  definition.
\<close>

theorem go_to_definition_of_a_builtin:
  "GetJediScript builtin_externals demo_request init =
     (Inr demo_script, after_session builtin_externals demo_request)
   \<and> goto_assignments builtin_externals demo_script = [def_builtin]
   \<and> fst (GoToDefinitionsWithSameName builtin_externals demo_request def_builtin
            (after_session builtin_externals demo_request)) = Inr []
   \<and> chase_rounds 1 builtin_externals demo_request [def_builtin]
        (after_session builtin_externals demo_request) =
       Some (Inr [def_builtin], after_session builtin_externals demo_request)
   \<and> GoToDefinition builtin_externals demo_request init =
       Some (Inl TypeError, after_session builtin_externals demo_request)"
proof -
  note s = builtin_session
  have a: "goto_assignments builtin_externals demo_script = [def_builtin]"
    by (simp add: builtin_externals_def)
  have n: "fst (GoToDefinitionsWithSameName builtin_externals demo_request def_builtin
            (after_session builtin_externals demo_request)) = Inr []"
    by (simp add: GoToDefinitionsWithSameName_def def_builtin_def truthy_def)
  have b: "BuildGoToResponse [def_builtin] = Inl TypeError"
    by (simp add: BuildGoToResponse_def def_builtin_def)
  from chase_follows_alias_chain [OF s(1), of def_builtin def_builtin def_builtin def_builtin] a n b
  have "chase_rounds 1 builtin_externals demo_request [def_builtin]
        (after_session builtin_externals demo_request) =
       Some (Inr [def_builtin], after_session builtin_externals demo_request)"
    and "GoToDefinition builtin_externals demo_request init =
       Some (Inl TypeError, after_session builtin_externals demo_request)"
    by simp_all
  with s(1) a n show ?thesis by blast
qed

theorem go_to_definition_of_a_builtin_witness:
  "column def_builtin = None
   \<and> goto_assignments builtin_externals demo_script = [def_builtin]
   \<and> GoToDefinition builtin_externals demo_request init =
       Some (Inl TypeError, after_session builtin_externals demo_request)"
  using go_to_definition_of_a_builtin by (simp add: def_builtin_def)

section \<open>Termination of the chase\<close>

text \<open>
  C2, as amended.  In a state where the environment and the search path of the request
  are cached (every state the loop runs in): a definition from whose place only
  definitions at that same place are found is terminal, and the loop started on it ends
  after one round with the definition itself; a definition kept by the filter never has
  the place of the definition it was found from; and when some rank on definitions
  goes down along every step the filter keeps and is at most \<open>n\<close> on the initial
  definitions, the loop ends within \<open>n + 1\<close> rounds, with definitions that are all
  terminal.  Nothing is said of an engine without such a rank.
\<close>

theorem chase_ends_when_rank_decreases:
  assumes "cached req s"
  shows "(fst (GetJediScriptForDefinition ext req d s) = Inr sc
            \<and> (\<forall>d'\<in>set (goto_assignments ext sc). place d' = place d)
          \<longrightarrow> fst (GoToDefinitionsWithSameName ext req d s) = Inr []
            \<and> chase_rounds 1 ext req [d] s = Some (Inr [d], s)
            \<and> chase_while ext req [d] s = Some (Inr [d], s))
       \<and> (\<forall>d ds. fst (GoToDefinitionsWithSameName ext req d s) = Inr ds \<longrightarrow>
             (\<forall>d'\<in>set ds. name d' = name d \<and> place d' \<noteq> place d))
       \<and> ((\<forall>d ds. fst (GoToDefinitionsWithSameName ext req d s) = Inr ds \<longrightarrow>
               (\<forall>d'\<in>set ds. rank d' < (rank d :: nat)))
            \<and> (\<forall>d\<in>set ds0. rank d \<le> n)
          \<longrightarrow> (\<exists>ds'. chase_rounds (Suc n) ext req ds0 s = Some (Inr ds', s)
                  \<and> chase_while ext req ds0 s = Some (Inr ds', s)
                  \<and> (\<forall>d\<in>set ds'. fst (GoToDefinitionsWithSameName ext req d s) = Inr [])))"
proof (intro conjI impI allI)
  note g = GoToDefinitionsWithSameName_cached [OF assms, of ext]
  {
    assume h: "fst (GetJediScriptForDefinition ext req d s) = Inr sc
            \<and> (\<forall>d'\<in>set (goto_assignments ext sc). place d' = place d)"
    then have t: "same_name_at ext req s d = []"
      using same_name_at_only_itself [of ext req d s sc] by blast
    with g [of d] show "fst (GoToDefinitionsWithSameName ext req d s) = Inr []" by simp
    show r1: "chase_rounds 1 ext req [d] s = Some (Inr [d], s)"
      using chase_rounds_cached [OF assms, of 0 ext "[d]"]
      by (simp add: t replaced_by_def del: chase_rounds.simps(2))
    from chase_rounds_chase_while [OF r1]
    show "chase_while ext req [d] s = Some (Inr [d], s)" .
  }
  {
    fix d ds
    assume "fst (GoToDefinitionsWithSameName ext req d s) = Inr ds"
    with g [of d] have "same_name_at ext req s d = ds" by simp
    with same_name_at_mem [of _ ext req s d]
    show "\<forall>d'\<in>set ds. name d' = name d \<and> place d' \<noteq> place d" by blast
  }
  {
    assume h: "(\<forall>d ds. fst (GoToDefinitionsWithSameName ext req d s) = Inr ds \<longrightarrow>
               (\<forall>d'\<in>set ds. rank d' < (rank d :: nat)))
            \<and> (\<forall>d\<in>set ds0. rank d \<le> n)"
    have dec: "\<forall>d d'. d' \<in> set (same_name_at ext req s d) \<longrightarrow> rank d' < rank d"
    proof (intro allI impI)
      fix d d' assume "d' \<in> set (same_name_at ext req s d)"
      with h g [of d] show "rank d' < rank d" by auto
    qed
    from h have "\<forall>d\<in>set ds0. same_name_at ext req s d \<noteq> [] \<longrightarrow> rank d \<le> n" by blast
    from chase_rounds_rank [OF assms dec this]
    obtain ds' where r: "chase_rounds (Suc n) ext req ds0 s = Some (Inr ds', s)"
      and t: "\<forall>d\<in>set ds'. same_name_at ext req s d = []" by blast
    from t g have "\<forall>d\<in>set ds'. fst (GoToDefinitionsWithSameName ext req d s) = Inr []" by simp
    with r chase_rounds_chase_while [OF r]
    show "\<exists>ds'. chase_rounds (Suc n) ext req ds0 s = Some (Inr ds', s)
                  \<and> chase_while ext req ds0 s = Some (Inr ds', s)
                  \<and> (\<forall>d\<in>set ds'. fst (GoToDefinitionsWithSameName ext req d s) = Inr [])"
      by blast
  }
qed

theorem chase_ends_when_rank_decreases_witness:
  "cached demo_request (after_session chain_externals demo_request)
   \<and> fst (GetJediScriptForDefinition chain_externals demo_request def_c
            (after_session chain_externals demo_request)) = Inr direct_script
   \<and> goto_assignments chain_externals direct_script = [def_c]
   \<and> chase_while chain_externals demo_request [def_c] (after_session chain_externals demo_request) =
       Some (Inr [def_c], after_session chain_externals demo_request)
   \<and> chain_rank def_b < chain_rank def_a \<and> chain_rank def_c < chain_rank def_b
   \<and> chain_rank def_a \<le> 2
   \<and> (\<exists>ds'. chase_rounds 3 chain_externals demo_request [def_a]
                (after_session chain_externals demo_request) =
               Some (Inr ds', after_session chain_externals demo_request)
          \<and> chase_while chain_externals demo_request [def_a]
                (after_session chain_externals demo_request) =
               Some (Inr ds', after_session chain_externals demo_request))"
proof -
  let ?s = "after_session chain_externals demo_request"
  note c = chain_session(3)
  have sc: "fst (GetJediScriptForDefinition chain_externals demo_request def_c ?s) = Inr direct_script"
    by (simp add: after_session_def GetJediScript_def GetJediScriptForDefinition_def cache_defs
          chain_externals_def demo_externals_def demo_request_def init_def def_c_def
          direct_script_def)
  have own: "\<forall>d'\<in>set (goto_assignments chain_externals direct_script). place d' = place def_c"
    by (simp add: chain_assignments places)
  have dec: "\<forall>d ds. fst (GoToDefinitionsWithSameName chain_externals demo_request d ?s) = Inr ds \<longrightarrow>
          (\<forall>d'\<in>set ds. chain_rank d' < chain_rank d)"
  proof (intro allI impI ballI)
    fix d ds d'
    assume "fst (GoToDefinitionsWithSameName chain_externals demo_request d ?s) = Inr ds"
      and "d' \<in> set ds"
    with GoToDefinitionsWithSameName_cached [OF c, of chain_externals d]
    have "d' \<in> set (same_name_at chain_externals demo_request ?s d)" by simp
    from chain_rank_decreases [OF c this] show "chain_rank d' < chain_rank d" .
  qed
  have le: "\<forall>d\<in>set [def_a]. chain_rank d \<le> 2"
    by (simp add: chain_rank_def places)
  note t = chase_ends_when_rank_decreases [OF c, where ext = chain_externals and d = def_c
      and sc = direct_script and rank = chain_rank and ?ds0.0 = "[def_a]" and n = 2]
  from t sc own have w: "chase_while chain_externals demo_request [def_c] ?s = Some (Inr [def_c], ?s)"
    by blast
  from t dec le have "\<exists>ds'. chase_rounds (Suc 2) chain_externals demo_request [def_a] ?s =
               Some (Inr ds', ?s)
          \<and> chase_while chain_externals demo_request [def_a] ?s = Some (Inr ds', ?s)"
    by blast
  then have e: "\<exists>ds'. chase_rounds 3 chain_externals demo_request [def_a] ?s = Some (Inr ds', ?s)
          \<and> chase_while chain_externals demo_request [def_a] ?s = Some (Inr ds', ?s)"
    by (simp add: numeral_3_eq_3 numeral_2_eq_2 del: chase_rounds.simps(2))
  have g: "goto_assignments chain_externals direct_script = [def_c]"
    by (simp add: chain_assignments places)
  have rk: "chain_rank def_b < chain_rank def_a" "chain_rank def_c < chain_rank def_b"
    "chain_rank def_a \<le> 2"
    by (simp_all add: chain_rank_def places)
  from c sc g w rk e show ?thesis by blast
qed

text \<open>
  C2 as it stands fails, since the loop does not end for every engine: when the definitions found from the import in
  \<^verbatim>\<open>a.py\<close> and from the import in \<^verbatim>\<open>b.py\<close> are each other, every round replaces
  the one by the other, and \<^verbatim>\<open>_GoToDefinition\<close> never returns.
\<close>

theorem chase_runs_forever_on_a_cycle:
  "GoToDefinition cyclic_externals demo_request init = None"
proof -
  note s = cyclic_session
  have a: "goto_assignments cyclic_externals demo_script = [def_a]"
    by (simp add: cyclic_externals_def places)
  have "chase_while cyclic_externals demo_request [def_a]
          (after_session cyclic_externals demo_request) = None"
  proof (cases "chase_while cyclic_externals demo_request [def_a]
          (after_session cyclic_externals demo_request)")
    case None
    then show ?thesis .
  next
    case (Some r)
    from cyclic_chase_never_returns [OF this] s(3) show ?thesis by simp
  qed
  with s(1) a show ?thesis by (simp add: GoToDefinition_def)
qed

section \<open>Navigation errors\<close>

text \<open>
  \<^verbatim>\<open>_GoToType\<close> raises \<^verbatim>\<open>RuntimeError( "Can't jump to type definition." )\<close>
  exactly when the session is built and \<^verbatim>\<open>goto_definitions\<close> returns the empty
  list, and returns what \<^verbatim>\<open>_BuildGoToResponse\<close> makes of the list otherwise; the same
  holds of \<^verbatim>\<open>_GoToReferences\<close> with \<^verbatim>\<open>usages\<close> and its own message; and
  \<^verbatim>\<open>_GoToDefinition\<close> raises \<^verbatim>\<open>RuntimeError( "Can't jump to definition." )\<close>
  exactly when the session is built and the loop ends with the empty list, and returns
  what \<^verbatim>\<open>_BuildGoToResponse\<close> makes of the final definitions otherwise.  That is a
  response when every definition has a column.
\<close>

lemma navigation_error_iff_empty:
  "(fst (GoToType ext req s) = Inl (RuntimeError ''Can't jump to type definition.'') \<longleftrightarrow>
      (\<exists>sc. fst (GetJediScript ext req s) = Inr sc \<and> goto_definitions ext sc = []))
   \<and> (fst (GetJediScript ext req s) = Inr sc \<and> goto_definitions ext sc \<noteq> [] \<longrightarrow>
        fst (GoToType ext req s) = BuildGoToResponse (goto_definitions ext sc))
   \<and> (fst (GoToReferences ext req s) = Inl (RuntimeError ''Can't find references.'') \<longleftrightarrow>
        (\<exists>sc. fst (GetJediScript ext req s) = Inr sc \<and> usages ext sc = []))
   \<and> (fst (GetJediScript ext req s) = Inr sc \<and> usages ext sc \<noteq> [] \<longrightarrow>
        fst (GoToReferences ext req s) = BuildGoToResponse (usages ext sc))
   \<and> (GoToDefinition ext req s = Some (Inl (RuntimeError ''Can't jump to definition.''), s') \<longleftrightarrow>
        (\<exists>sc s1. GetJediScript ext req s = (Inr sc, s1)
           \<and> chase_while ext req (goto_assignments ext sc) s1 = Some (Inr [], s')))
   \<and> (GetJediScript ext req s = (Inr sc, s1)
        \<and> chase_while ext req (goto_assignments ext sc) s1 = Some (Inr ds, s2) \<and> ds \<noteq> [] \<longrightarrow>
        GoToDefinition ext req s = Some (BuildGoToResponse ds, s2))
   \<and> ((\<forall>d\<in>set ds'. column d \<noteq> None) \<longrightarrow> (\<exists>r. BuildGoToResponse ds' = Inr r))"
proof -
  have t: "fst (GetJediScript ext req s) = Inr sc \<and> goto_definitions ext sc \<noteq> [] \<longrightarrow>
        fst (GoToType ext req s) = BuildGoToResponse (goto_definitions ext sc)"
    by (cases "GetJediScript ext req s") (auto simp: GoToType_def Let_def)
  have r: "fst (GetJediScript ext req s) = Inr sc \<and> usages ext sc \<noteq> [] \<longrightarrow>
        fst (GoToReferences ext req s) = BuildGoToResponse (usages ext sc)"
    by (cases "GetJediScript ext req s") (auto simp: GoToReferences_def Let_def)
  have d: "GetJediScript ext req s = (Inr sc, s1)
        \<and> chase_while ext req (goto_assignments ext sc) s1 = Some (Inr ds, s2) \<and> ds \<noteq> [] \<longrightarrow>
        GoToDefinition ext req s = Some (BuildGoToResponse ds, s2)"
    using GoToDefinition_result [of ext req s sc s1 ds s2] by simp
  show ?thesis
    using t r d GoToType_navigation_error [of ext req s] GoToReferences_navigation_error [of ext req s]
      GoToDefinition_navigation_error [of ext req s s'] BuildGoToResponse_ok [of ds']
    by blast
qed

lemma navigation_error_iff_empty_example:
  "fst (GetJediScript demo_externals demo_request init) = Inr demo_script
   \<and> goto_definitions demo_externals demo_script = []
   \<and> usages demo_externals demo_script = []
   \<and> fst (GoToType demo_externals demo_request init) =
       Inl (RuntimeError ''Can't jump to type definition.'')
   \<and> fst (GoToReferences demo_externals demo_request init) =
       Inl (RuntimeError ''Can't find references.'')
   \<and> GoToDefinition demo_externals demo_request init =
       Some (Inl (RuntimeError ''Can't jump to definition.''), after_session demo_externals demo_request)
   \<and> fst (GetJediScript chain_externals demo_request init) = Inr demo_script
   \<and> goto_definitions chain_externals demo_script \<noteq> []
   \<and> usages chain_externals demo_script \<noteq> []
   \<and> column def_a \<noteq> None \<and> column def_c \<noteq> None
   \<and> fst (GoToType chain_externals demo_request init) =
       Inr (GoToResponse (GoToLocation (Some ''/project/c.py'') (Some 5) 5 None))
   \<and> fst (GoToReferences chain_externals demo_request init) =
       Inr (GoToList [GoToLocation (Some ''/project/a.py'') (Some 1) 15 (Some ''from b import f''),
                      GoToLocation (Some ''/project/c.py'') (Some 5) 5 (Some ''def f'')])
   \<and> chase_while chain_externals demo_request (goto_assignments chain_externals demo_script)
        (after_session chain_externals demo_request) =
       Some (Inr [def_c], after_session chain_externals demo_request)
   \<and> GoToDefinition chain_externals demo_request init =
       Some (Inr (GoToResponse (GoToLocation (Some ''/project/c.py'') (Some 5) 5 None)),
             after_session chain_externals demo_request)"
proof -
  note d = demo_session and c = chain_session
  have d1: "fst (GetJediScript demo_externals demo_request init) = Inr demo_script"
    using d(1) by simp
  have c1: "fst (GetJediScript chain_externals demo_request init) = Inr demo_script"
    using c(1) by simp
  have e: "goto_definitions demo_externals demo_script = []" "usages demo_externals demo_script = []"
    "goto_assignments demo_externals demo_script = []"
    by (simp_all add: demo_externals_def)
  have n: "goto_definitions chain_externals demo_script = [def_c]"
    "usages chain_externals demo_script = [def_a, def_c]"
    "goto_assignments chain_externals demo_script = [def_a]"
    by (simp_all add: chain_externals_def places)
  have col: "\<forall>d\<in>set [def_a, def_c]. column d \<noteq> None"
    by (simp add: def_a_def def_c_def)
  have b: "BuildGoToResponse [def_c] =
             Inr (GoToResponse (GoToLocation (Some ''/project/c.py'') (Some 5) 5 None))"
    "BuildGoToResponse [def_a, def_c] =
       Inr (GoToList [GoToLocation (Some ''/project/a.py'') (Some 1) 15 (Some ''from b import f''),
                      GoToLocation (Some ''/project/c.py'') (Some 5) 5 (Some ''def f'')])"
    by (simp_all add: BuildGoToResponse_def def_a_def def_c_def)
  have w0: "chase_while demo_externals demo_request [] (after_session demo_externals demo_request) =
              Some (Inr [], after_session demo_externals demo_request)"
    by (subst chase_while_cached [OF d(3)]) simp
  have w1: "chase_while chain_externals demo_request [def_a] (after_session chain_externals demo_request) =
              Some (Inr [def_c], after_session chain_externals demo_request)"
    by (rule chain_chase(2) [OF c(3)])
  note t0 = navigation_error_iff_empty [where ext = demo_externals and req = demo_request
      and s = init and s' = "after_session demo_externals demo_request"]
  note t1 = navigation_error_iff_empty [where ext = chain_externals and req = demo_request
      and s = init and sc = demo_script and ?s1.0 = "after_session chain_externals demo_request"
      and ?s2.0 = "after_session chain_externals demo_request" and ds = "[def_c]"
      and ds' = "[def_a, def_c]"]
  from t0 d1 e have f1: "fst (GoToType demo_externals demo_request init) =
       Inl (RuntimeError ''Can't jump to type definition.'')"
    and f2: "fst (GoToReferences demo_externals demo_request init) =
       Inl (RuntimeError ''Can't find references.'')"
    by blast+
  from t0 d(1) e w0 have f3: "GoToDefinition demo_externals demo_request init =
       Some (Inl (RuntimeError ''Can't jump to definition.''), after_session demo_externals demo_request)"
    by auto
  from t1 c1 n b have g1: "fst (GoToType chain_externals demo_request init) =
       Inr (GoToResponse (GoToLocation (Some ''/project/c.py'') (Some 5) 5 None))"
    and g2: "fst (GoToReferences chain_externals demo_request init) =
       Inr (GoToList [GoToLocation (Some ''/project/a.py'') (Some 1) 15 (Some ''from b import f''),
                      GoToLocation (Some ''/project/c.py'') (Some 5) 5 (Some ''def f'')])"
    by simp_all
  from t1 c(1) n w1 b have g3: "GoToDefinition chain_externals demo_request init =
       Some (Inr (GoToResponse (GoToLocation (Some ''/project/c.py'') (Some 5) 5 None)),
             after_session chain_externals demo_request)"
    by simp
  from w1 n have w1': "chase_while chain_externals demo_request
        (goto_assignments chain_externals demo_script) (after_session chain_externals demo_request) =
       Some (Inr [def_c], after_session chain_externals demo_request)"
    by simp
  from n have ne: "goto_definitions chain_externals demo_script \<noteq> []"
    "usages chain_externals demo_script \<noteq> []" by simp_all
  from col have col': "column def_a \<noteq> None" "column def_c \<noteq> None" by simp_all
  from t1 col have "\<exists>r. BuildGoToResponse [def_a, def_c] = Inr r" by blast
  from d1 e(1,2) f1 f2 f3 c1 ne col' g1 g2 w1' g3 show ?thesis by blast
qed

text \<open>
  C3.  The engine finds a builtin, a definition without a column, as the type and as
  the one usage.  The result is not empty, and \<^verbatim>\<open>_GoToType\<close> and
  \<^verbatim>\<open>_GoToReferences\<close> raise \<^verbatim>\<open>TypeError\<close> from \<^verbatim>\<open>definition.column + 1\<close>
  instead of returning a response.
\<close>

theorem go_to_type_of_a_builtin:
  "fst (GetJediScript builtin_externals demo_request init) = Inr demo_script
   \<and> goto_definitions builtin_externals demo_script = [def_builtin]
   \<and> usages builtin_externals demo_script = [def_builtin]
   \<and> fst (GoToType builtin_externals demo_request init) = Inl TypeError
   \<and> fst (GoToReferences builtin_externals demo_request init) = Inl TypeError"
proof -
  note s = builtin_session
  have d: "goto_definitions builtin_externals demo_script = [def_builtin]"
    "usages builtin_externals demo_script = [def_builtin]"
    by (simp_all add: builtin_externals_def)
  have b: "BuildGoToResponse [def_builtin] = Inl TypeError"
    by (simp add: BuildGoToResponse_def def_builtin_def)
  from s(1) d b show ?thesis
    by (simp add: GoToType_def GoToReferences_def)
qed

section \<open>Documentation\<close>

text \<open>
  C4.  The engine returns two definitions whose docstrings are both empty.
  \<^verbatim>\<open>_GetDoc\<close> joins them and tests the joined string, which is the separator alone:
  it returns a response holding \<^verbatim>\<open>'\n---\n'\<close> instead of raising
  \<^verbatim>\<open>RuntimeError( 'No documentation available.' )\<close>.
\<close>

theorem documentation_of_two_undocumented_definitions:
  "fst (GetJediScript undocumented_externals demo_request init) = Inr demo_script
   \<and> map docstring (goto_definitions undocumented_externals demo_script) = [[], []]
   \<and> fst (GetDoc undocumented_externals demo_request init) =
       Inr (DetailedInfoResponse [CHR 0x0A, CHR ''-'', CHR ''-'', CHR ''-'', CHR 0x0A])"
proof -
  note s = undocumented_session
  have d: "goto_definitions undocumented_externals demo_script = [def_a, def_b]"
    by (simp add: undocumented_externals_def)
  then have m: "map docstring (goto_definitions undocumented_externals demo_script) = [[], []]"
    by (simp add: def_a_def def_b_def)
  from GetDoc_result [OF s(1)] m s(1) show ?thesis
    by (simp add: doc_separator_def)
qed

section \<open>Type information\<close>

text \<open>
  C5, as amended.  \<^verbatim>\<open>_GetType\<close> raises
  \<^verbatim>\<open>RuntimeError( 'No type information available.' )\<close> exactly when the session is
  built and the joined string is empty: there is no definition, or there is a single
  definition with an empty description and no \<^verbatim>\<open>params\<close>.  Otherwise it returns
  the type information of the definitions joined by \<^verbatim>\<open>', '\<close>, where the type
  information of a definition is its description when it has no \<^verbatim>\<open>params\<close>, and
  otherwise its description followed, between parentheses, by the descriptions of the
  parameters without their first six characters, joined by \<^verbatim>\<open>', '\<close>: for
  descriptions that start with \<^verbatim>\<open>'param '\<close>, what follows that prefix.
\<close>

theorem type_information_of_definitions:
  "(fst (GetType ext req s) = Inl (RuntimeError ''No type information available.'') \<longleftrightarrow>
      (\<exists>sc. fst (GetJediScript ext req s) = Inr sc \<and>
         (goto_definitions ext sc = [] \<or>
          (\<exists>d. goto_definitions ext sc = [d] \<and> description d = [] \<and> params d = None))))
   \<and> (GetJediScript ext req s = (Inr sc, s1)
        \<and> join '', '' (map BuildTypeInfo (goto_definitions ext sc)) \<noteq> [] \<longrightarrow>
        GetType ext req s =
          (Inr (DisplayMessageResponse (join '', '' (map BuildTypeInfo (goto_definitions ext sc)))), s1))
   \<and> (params d = None \<longrightarrow> BuildTypeInfo d = description d)
   \<and> (params d = Some ps \<longrightarrow>
        BuildTypeInfo d = description d @ ''('' @ join '', '' (map (drop 6) ps) @ '')'')
   \<and> (params d = Some (map ((@) ''param '') xs) \<longrightarrow>
        BuildTypeInfo d = description d @ ''('' @ join '', '' xs @ '')'')"
proof -
  have a: "GetJediScript ext req s = (Inr sc, s1)
        \<and> join '', '' (map BuildTypeInfo (goto_definitions ext sc)) \<noteq> [] \<longrightarrow>
        GetType ext req s =
          (Inr (DisplayMessageResponse (join '', '' (map BuildTypeInfo (goto_definitions ext sc)))), s1)"
    using GetType_result [of ext req s sc s1] by simp
  have b: "params d = Some (map ((@) ''param '') xs) \<longrightarrow>
        BuildTypeInfo d = description d @ ''('' @ join '', '' xs @ '')''"
    by (simp add: BuildTypeInfo_def comp_def)
  have c: "params d = None \<longrightarrow> BuildTypeInfo d = description d"
    "params d = Some ps \<longrightarrow>
        BuildTypeInfo d = description d @ ''('' @ join '', '' (map (drop 6) ps) @ '')''"
    by (simp_all add: BuildTypeInfo_def)
  from a b c GetType_navigation_error [of ext req s] show ?thesis by blast
qed

theorem type_information_of_definitions_witness:
  "GetJediScript chain_externals demo_request init =
     (Inr demo_script, after_session chain_externals demo_request)
   \<and> goto_definitions chain_externals demo_script = [def_c]
   \<and> params def_c = Some (map ((@) ''param '') [''x'', ''y=1''])
   \<and> BuildTypeInfo def_c = ''def f(x, y=1)''
   \<and> GetType chain_externals demo_request init =
       (Inr (DisplayMessageResponse ''def f(x, y=1)''), after_session chain_externals demo_request)
   \<and> params def_a = None
   \<and> BuildTypeInfo def_a = ''from b import f''
   \<and> fst (GetJediScript demo_externals demo_request init) = Inr demo_script
   \<and> goto_definitions demo_externals demo_script = []
   \<and> fst (GetType demo_externals demo_request init) =
       Inl (RuntimeError ''No type information available.'')"
proof -
  note c = chain_session and d = demo_session
  have d1: "fst (GetJediScript demo_externals demo_request init) = Inr demo_script"
    using d(1) by simp
  have e: "goto_definitions demo_externals demo_script = []"
    by (simp add: demo_externals_def)
  have n: "goto_definitions chain_externals demo_script = [def_c]"
    by (simp add: chain_externals_def)
  have p: "params def_c = Some (map ((@) ''param '') [''x'', ''y=1''])"
    "params def_c = Some [''param x'', ''param y=1'']"
    "description def_c = ''def f''"
    "params def_a = None" "description def_a = ''from b import f''"
    by (simp_all add: def_c_def def_a_def)
  note t1 = type_information_of_definitions [where ext = chain_externals and req = demo_request
      and s = init and sc = demo_script and ?s1.0 = "after_session chain_externals demo_request"
      and d = def_c and xs = "[''x'', ''y=1'']" and ps = "[''param x'', ''param y=1'']"]
  note t2 = type_information_of_definitions [where ext = demo_externals and req = demo_request
      and s = init and d = def_a]
  from t1 p have b: "BuildTypeInfo def_c = ''def f(x, y=1)''" by simp
  from t1 c(1) n b have g: "GetType chain_externals demo_request init =
       (Inr (DisplayMessageResponse ''def f(x, y=1)''), after_session chain_externals demo_request)"
    by simp
  from t2 p have b': "BuildTypeInfo def_a = ''from b import f''" by simp
  from t2 d1 e have f: "fst (GetType demo_externals demo_request init) =
       Inl (RuntimeError ''No type information available.'')"
    by blast
  from c(1) n p(1,4) b g b' d1 e f show ?thesis by blast
qed

text \<open>
  C5 as it stands fails: for a single definition with an empty description and no
  \<^verbatim>\<open>params\<close>, \<^verbatim>\<open>_GetType\<close> raises although there is a definition.
\<close>

theorem type_information_missing_for_a_definition:
  "fst (GetJediScript blank_externals demo_request init) = Inr demo_script
   \<and> goto_definitions blank_externals demo_script = [def_blank]
   \<and> fst (GetType blank_externals demo_request init) =
       Inl (RuntimeError ''No type information available.'')"
proof -
  note s = blank_session
  have d: "goto_definitions blank_externals demo_script = [def_blank]"
    by (simp add: blank_externals_def)
  from GetType_result [OF s(1)] d s(1) show ?thesis
    by (simp add: BuildTypeInfo_def def_blank_def)
qed

section \<open>Environment resolution\<close>

text \<open>
  C6.  Resolving a non-empty interpreter path for which the executable search (after
  variable expansion) finds nothing raises the \<^verbatim>\<open>RuntimeError\<close> whose message
  names the path as it was given, and leaves every cache as it was: no entry is
  inserted into \<open>environment_for_interpreter_path\<close>, and no environment is constructed.
\<close>

theorem resolution_error_keeps_caches:
  assumes "p \<noteq> []" and "\<not> truthy (FindExecutable ext (ExpandVariablesInPath ext p))"
  shows "fst (EnvironmentForInterpreterPath ext (Some p) s) =
           Inl (RuntimeError (''Cannot find Python interpreter path '' @ p @ ''.''))
         \<and> environment_for_interpreter_path (snd (EnvironmentForInterpreterPath ext (Some p) s)) =
             environment_for_interpreter_path s
         \<and> environment_for_file (snd (EnvironmentForInterpreterPath ext (Some p) s)) =
             environment_for_file s
         \<and> settings_for_file (snd (EnvironmentForInterpreterPath ext (Some p) s)) =
             settings_for_file s
         \<and> sys_path_for_file (snd (EnvironmentForInterpreterPath ext (Some p) s)) =
             sys_path_for_file s
         \<and> next_env (snd (EnvironmentForInterpreterPath ext (Some p) s)) = next_env s"
  using assms
  by (simp add: EnvironmentForInterpreterPath_def resolve_interpreter_path_def Let_def)

theorem resolution_error_keeps_caches_witness:
  "''/no/such/python'' \<noteq> []
   \<and> \<not> truthy (FindExecutable demo_externals (ExpandVariablesInPath demo_externals ''/no/such/python''))
   \<and> fst (EnvironmentForInterpreterPath demo_externals (Some ''/no/such/python'') init) =
         Inl (RuntimeError ''Cannot find Python interpreter path /no/such/python.'')
   \<and> environment_for_interpreter_path
         (snd (EnvironmentForInterpreterPath demo_externals (Some ''/no/such/python'') init)) = Map.empty"
  using resolution_error_keeps_caches [of "''/no/such/python''" demo_externals init]
  by (simp add: demo_externals_def truthy_def init_def)

text \<open>
  C7.  Two raw interpreter paths whose expansion, executable search and normalisation
  give the same path are resolved to the same environment object: the second resolution,
  in any later state that still holds the entries the first one left, returns the
  environment of the first and constructs nothing.  Every method keeps the entries
  (\<open>EnvironmentForInterpreterPath_mono\<close>, \<open>EnvironmentForRequest_mono\<close>,
  \<open>SysPathForFile_mono\<close>, \<open>OnFileReadyToParse_mono\<close>), so this is every later state.
\<close>

theorem same_resolved_path_same_environment:
  assumes "p1 \<noteq> []" and "p2 \<noteq> []"
    and "FindExecutable ext (ExpandVariablesInPath ext p1) = Some r1" and "r1 \<noteq> []"
    and "FindExecutable ext (ExpandVariablesInPath ext p2) = Some r2" and "r2 \<noteq> []"
    and "normpath ext r1 = normpath ext r2"
    and "environment_for_interpreter_path (snd (EnvironmentForInterpreterPath ext (Some p1) s))
           \<subseteq>\<^sub>m environment_for_interpreter_path s'"
  shows "\<exists>env. fst (EnvironmentForInterpreterPath ext (Some p1) s) = Inr env
             \<and> fst (EnvironmentForInterpreterPath ext (Some p2) s') = Inr env
             \<and> next_env (snd (EnvironmentForInterpreterPath ext (Some p2) s')) = next_env s'
             \<and> environment_for_interpreter_path (snd (EnvironmentForInterpreterPath ext (Some p2) s'))
                 = environment_for_interpreter_path s'"
proof -
  from EnvironmentForInterpreterPath_stores [OF assms(1,3,4), of s]
  obtain env where env: "fst (EnvironmentForInterpreterPath ext (Some p1) s) = Inr env"
    and st: "environment_for_interpreter_path (snd (EnvironmentForInterpreterPath ext (Some p1) s))
               (Some (normpath ext r1)) = Some env"
    by blast
  from st assms(8) have "environment_for_interpreter_path s' (Some (normpath ext r1)) = Some env"
    by (auto simp: map_le_def dom_def)
  with assms(7) have "environment_for_interpreter_path s' (Some (normpath ext r2)) = Some env"
    by simp
  from EnvironmentForInterpreterPath_hit [OF assms(2,5,6) this] env show ?thesis
    by simp
qed

theorem same_resolved_path_same_environment_witness:
  "''$PYTHON'' \<noteq> [] \<and> ''/usr/bin/./python3'' \<noteq> []
   \<and> ''$PYTHON'' \<noteq> ''/usr/bin/./python3''
   \<and> FindExecutable demo_externals (ExpandVariablesInPath demo_externals ''$PYTHON'') =
         Some ''/usr/bin/python3''
   \<and> FindExecutable demo_externals (ExpandVariablesInPath demo_externals ''/usr/bin/./python3'') =
         Some ''/usr/bin/./python3''
   \<and> normpath demo_externals ''/usr/bin/python3'' = normpath demo_externals ''/usr/bin/./python3''
   \<and> (\<exists>env. fst (EnvironmentForInterpreterPath demo_externals (Some ''$PYTHON'') init) = Inr env
          \<and> fst (EnvironmentForInterpreterPath demo_externals (Some ''/usr/bin/./python3'')
                 (snd (EnvironmentForInterpreterPath demo_externals (Some ''$PYTHON'') init))) = Inr env)"
proof -
  have a: "FindExecutable demo_externals (ExpandVariablesInPath demo_externals ''$PYTHON'') =
             Some ''/usr/bin/python3''"
    by (simp add: demo_externals_def)
  have b: "FindExecutable demo_externals (ExpandVariablesInPath demo_externals ''/usr/bin/./python3'') =
             Some ''/usr/bin/./python3''"
    by (simp add: demo_externals_def)
  have c: "normpath demo_externals ''/usr/bin/python3'' = normpath demo_externals ''/usr/bin/./python3''"
    by (simp add: demo_externals_def)
  from same_resolved_path_same_environment [OF _ _ a _ b _ c map_le_refl, of init]
  have "\<exists>env. fst (EnvironmentForInterpreterPath demo_externals (Some ''$PYTHON'') init) = Inr env
          \<and> fst (EnvironmentForInterpreterPath demo_externals (Some ''/usr/bin/./python3'')
                 (snd (EnvironmentForInterpreterPath demo_externals (Some ''$PYTHON'') init))) = Inr env"
    by auto
  with a b c show ?thesis by simp
qed

section \<open>The per-file caches\<close>




text \<open>
  The stored search path is a list object.  When \<^verbatim>\<open>Settings\<close> returns the same list
  of its module on every call, the search path stored for one pair is that list, and a
  request for another pair extends it: the first pair still has the same object, which
  now holds more.
\<close>

lemma shared_search_path_list_grows:
  "sys_path_for_file (snd (OnFileReadyToParse shared_list_externals demo_request init))
     (key_of demo_request) = Some (ModuleList 0)
   \<and> lists (snd (OnFileReadyToParse shared_list_externals demo_request init)) (ModuleList 0) =
       [''/usr/lib/python3'']
   \<and> sys_path_for_file
        (snd (OnFileReadyToParse shared_list_externals demo_request_other
               (snd (OnFileReadyToParse shared_list_externals demo_request init))))
        (key_of demo_request) = Some (ModuleList 0)
   \<and> lists
        (snd (OnFileReadyToParse shared_list_externals demo_request_other
               (snd (OnFileReadyToParse shared_list_externals demo_request init))))
        (ModuleList 0) = [''/usr/lib/python3'', ''/usr/lib/python3'']"
  by (simp add: cache_defs shared_list_externals_def shared_list_module_def demo_externals_def
        demo_request_def demo_request_other_def init_def)

section \<open>Candidate detailing\<close>

text \<open>
  C9.  Detailing is idempotent.  A second pass over a batch, for whatever request,
  changes nothing; a pass keeps the length of the batch, leaves every candidate whose
  \<^verbatim>\<open>'extra_data'\<close> is a dictionary already exactly as it is, also in a batch that
  holds undetailed candidates, and leaves no candidate undetailed.
\<close>

theorem detailing_is_idempotent:
  "DetailCandidates req' (DetailCandidates req cs) = DetailCandidates req cs
   \<and> length (DetailCandidates req cs) = length cs
   \<and> (\<forall>i<length cs. \<forall>x. extra_data (cs ! i) = Dict x \<longrightarrow> DetailCandidates req cs ! i = cs ! i)
   \<and> (\<forall>i<length cs. \<exists>x. extra_data (DetailCandidates req cs ! i) = Dict x)"
  by (auto simp: DetailCandidates_idem DetailCandidates_length DetailCandidates_nth
      split: extra_data.splits)

theorem detailing_is_idempotent_witness:
  "(0::nat) < length [detailed_candidate, fresh_candidate]
   \<and> extra_data ([detailed_candidate, fresh_candidate] ! 0) = Dict None
   \<and> DetailCandidates demo_request [detailed_candidate, fresh_candidate] ! 0 = detailed_candidate
   \<and> DetailCandidates demo_request_again
        (DetailCandidates demo_request [detailed_candidate, fresh_candidate]) =
      DetailCandidates demo_request [detailed_candidate, fresh_candidate]
   \<and> DetailCandidates demo_request [detailed_candidate, fresh_candidate] ! 1 =
      \<lparr> insertion_text = ''f'', extra_menu_info = Some ''def f(x, y=1)'',
        detailed_info = Some ''f(x, y=1)'', kind = Some ''function'',
        extra_data = Dict (Some (Location ''/project/c.py'' 5 5)) \<rparr>"
proof -
  have a: "extra_data ([detailed_candidate, fresh_candidate] ! 0) = Dict None"
    by (simp add: detailed_candidate_def)
  have b: "DetailCandidates demo_request [detailed_candidate, fresh_candidate] ! 1 =
      \<lparr> insertion_text = ''f'', extra_menu_info = Some ''def f(x, y=1)'',
        detailed_info = Some ''f(x, y=1)'', kind = Some ''function'',
        extra_data = Dict (Some (Location ''/project/c.py'' 5 5)) \<rparr>"
    by (simp add: detailed_candidate_def fresh_candidate_def def_c_def BuildTypeInfo_def
          GetExtraData_def)
  from detailing_is_idempotent [of demo_request_again demo_request
      "[detailed_candidate, fresh_candidate]"] a
  have "DetailCandidates demo_request [detailed_candidate, fresh_candidate] ! 0 = detailed_candidate"
    and "DetailCandidates demo_request_again
        (DetailCandidates demo_request [detailed_candidate, fresh_candidate]) =
      DetailCandidates demo_request [detailed_candidate, fresh_candidate]"
    by auto
  with a b show ?thesis by simp
qed

end
